theory Spec2Isabelle
  imports Main "HOL-Library.Word"
begin

section \<open>Go library functions used by the sources\<close>

text \<open>
  Go strings are byte sequences; they are modelled as \<open>string\<close> (a list of bytes).
  A Go \<open>error\<close> value coming out of a collaborator is represented by its message
  (\<open>err.Error()\<close>), and \<open>nil\<close> by \<open>None\<close>.  \<open>int64\<close> is a 64-bit word read
  as two's complement.
\<close>

type_synonym int64 = "64 word"

text \<open>\<open>strings.Join(elems, sep)\<close>: the elements, with \<open>sep\<close> between neighbours.\<close>

fun strings_Join :: "string list \<Rightarrow> string \<Rightarrow> string" where
  "strings_Join [] sep = []"
| "strings_Join [a] sep = a"
| "strings_Join (a # b # bs) sep = a @ sep @ strings_Join (b # bs) sep"

text \<open>\<open>strings.Index(s, substr)\<close>: the byte offset of the first occurrence, if any.\<close>

fun strings_HasPrefix :: "string \<Rightarrow> string \<Rightarrow> bool" where
  "strings_HasPrefix s [] = True"
| "strings_HasPrefix [] (p # ps) = False"
| "strings_HasPrefix (c # cs) (p # ps) = (c = p \<and> strings_HasPrefix cs ps)"

fun strings_Index :: "string \<Rightarrow> string \<Rightarrow> nat option" where
  "strings_Index [] substr = (if substr = [] then Some 0 else None)"
| "strings_Index (c # cs) substr =
     (if strings_HasPrefix (c # cs) substr then Some 0
      else map_option Suc (strings_Index cs substr))"

text \<open>\<open>strings.Contains(s, substr)\<close> is \<open>Index(s, substr) >= 0\<close>.\<close>

definition strings_Contains :: "string \<Rightarrow> string \<Rightarrow> bool" where
  "strings_Contains s substr = (strings_Index s substr \<noteq> None)"

text \<open>
  \<open>strings.Replace(s, old, new, 1)\<close>, the only call shape in the sources: \<open>s\<close> itself when
  \<open>old = new\<close> or \<open>old\<close> does not occur, otherwise \<open>s\<close> with the first occurrence of
  \<open>old\<close> replaced by \<open>new\<close> (an empty \<open>old\<close> occurs at offset 0).
\<close>

definition strings_Replace1 :: "string \<Rightarrow> string \<Rightarrow> string \<Rightarrow> string" where
  "strings_Replace1 s old new =
     (if old = new then s
      else case strings_Index s old of
             None \<Rightarrow> s
           | Some j \<Rightarrow> take j s @ new @ drop (j + length old) s)"

text \<open>Decimal printing, as \<open>%d\<close> of \<open>fmt.Sprintf\<close> does for an \<open>int64\<close>.\<close>

definition digit_char :: "nat \<Rightarrow> char" where
  "digit_char d = ''0123456789'' ! d"

fun nat_to_string :: "nat \<Rightarrow> string" where
  "nat_to_string n =
     (if n < 10 then [digit_char n] else nat_to_string (n div 10) @ [digit_char (n mod 10)])"

definition fmt_d :: "int64 \<Rightarrow> string" where
  "fmt_d v = (if sint v < 0 then CHR ''-'' # nat_to_string (nat (- sint v))
              else nat_to_string (nat (sint v)))"

section \<open>Freestyle job controller: data model\<close>

text \<open>
  The structs the controller works on.  Only the fields the controller reads or writes
  are listed; a record's remaining fields are carried unchanged by every operation.
  \<open>config.Status\<close> is modelled from the spec: its constants are not among the sources, and
  the spec names the statuses Created, Running, Queued, WaitingApproval, Passed, Failed,
  Cancelled, Timeout and Reject; \<open>StatusUnset\<close> is Go's zero value.
\<close>

datatype Status =
    StatusUnset | StatusCreated | StatusRunning | StatusQueued | StatusWaitingApproval
  | StatusPassed | StatusFailed | StatusCancelled | StatusTimeout | StatusReject

record KeyVal =
  kv_Key :: string
  kv_Value :: string
  kv_IsCredential :: bool

record Output =
  out_Name :: string
  out_Description :: string

record JobOutput =
  jo_Name :: string
  jo_Value :: string

record StepTask =
  st_Name :: string
  st_StepType :: string
  st_Spec :: string

record JobProperties =
  Timeout :: int64
  ResourceRequest :: string
  ClusterID :: string
  BuildOS :: string
  ImageFrom :: string
  Namespace :: string
  Envs :: "KeyVal list"
  Paths :: string
  DockerHost :: string
  ResReqSpec :: string

record JobTaskBuildSpec =
  Properties :: JobProperties
  Steps :: "StepTask list"

record JobTask =
  job_Name :: string
  job_JobType :: string
  job_Status :: Status
  job_StartTime :: int64
  job_EndTime :: int64
  job_Error :: string
  job_Outputs :: "Output list"

record WorkflowTaskCtx =
  ctx_WorkflowName :: string
  ctx_TaskID :: int64
  ctx_Workspace :: string
  ctx_GlobalContext :: "string \<rightharpoonup> string"

record JobContext =
  jc_Name :: string
  jc_Envs :: "string list"
  jc_SecretEnvs :: "string list"
  jc_WorkflowName :: string
  jc_Workspace :: string
  jc_TaskID :: int64
  jc_Outputs :: "string list"
  jc_Steps :: "StepTask list"
  jc_Paths :: string

record JobLabel =
  jl_WorkflowName :: string
  jl_TaskID :: int64
  jl_JobType :: string
  jl_JobName :: string

text \<open>
  \<open>WorkflowTaskCtx.GlobalContextSet\<close>.  Modelled from the spec: the method is not among the
  sources; the spec describes the variable context as a per-task map from key to value
  that a write updates at its key.
\<close>

definition GlobalContextSet :: "WorkflowTaskCtx \<Rightarrow> string \<Rightarrow> string \<Rightarrow> WorkflowTaskCtx" where
  "GlobalContextSet wctx k v = wctx\<lparr>ctx_GlobalContext := (ctx_GlobalContext wctx)(k \<mapsto> v)\<rparr>"

section \<open>Job context builder\<close>

text \<open>
  \<open>BuildJobExcutorContext\<close>.  Its first loop appends each env to one of two slices; the
  loop state is the pair \<open>(envVars, secretEnvVars)\<close>.  The second loop appends the
  output names.  A nil slice and an empty slice are both the empty list.
\<close>

fun envLoop :: "KeyVal list \<Rightarrow> string list \<times> string list \<Rightarrow> string list \<times> string list" where
  "envLoop [] acc = acc"
| "envLoop (env # rest) (envVars, secretEnvVars) =
     (if kv_IsCredential env
      then envLoop rest (envVars, secretEnvVars @ [strings_Join [kv_Key env, kv_Value env] ''=''])
      else envLoop rest (envVars @ [strings_Join [kv_Key env, kv_Value env] ''=''], secretEnvVars))"

fun outputLoop :: "Output list \<Rightarrow> string list \<Rightarrow> string list" where
  "outputLoop [] outputs = outputs"
| "outputLoop (output # rest) outputs = outputLoop rest (outputs @ [out_Name output])"

definition BuildJobExcutorContext ::
  "JobTaskBuildSpec \<Rightarrow> JobTask \<Rightarrow> WorkflowTaskCtx \<Rightarrow> JobContext" where
  "BuildJobExcutorContext jobTaskSpec job workflowCtx =
     (let (envVars, secretEnvVars) = envLoop (Envs (Properties jobTaskSpec)) ([], []);
          outputs = outputLoop (job_Outputs job) []
      in \<lparr> jc_Name = job_Name job,
           jc_Envs = envVars,
           jc_SecretEnvs = secretEnvVars,
           jc_WorkflowName = ctx_WorkflowName workflowCtx,
           jc_Workspace = ctx_Workspace workflowCtx,
           jc_TaskID = ctx_TaskID workflowCtx,
           jc_Outputs = outputs,
           jc_Steps = Steps jobTaskSpec,
           jc_Paths = Paths (Properties jobTaskSpec) \<rparr>)"

section \<open>Freestyle job controller: phases\<close>

text \<open>
  The controller reaches its collaborators (step controller, cluster clients, docker-host
  selector, YAML encoder, workload helpers, log store, clock) through functions that are
  not among the sources.  They are the fields of \<open>JobEnv\<close>: each returns what the call
  returns, an error being its message.  A cluster client is an opaque handle.
  \<open>PrepareSteps\<close> and \<open>SummarizeSteps\<close> receive a pointer to \<open>Properties.Paths\<close>
  and return its new content together with their error.
\<close>

record K8sJob =
  k8s_Namespace :: string
  k8s_Body :: string

record JobEnv =
  HubServerAddress :: string
  zadigconfig_Namespace :: string
  config_Namespace :: string
  LocalClusterID :: string
  AttachedClusterNamespace :: string
  MinRequest :: string
  krkubeclient_Client :: nat
  krkubeclient_Clientset :: nat
  krkubeclient_RESTConfig :: nat
  time_Now_Unix :: int64
  PrepareSteps :: "WorkflowTaskCtx \<Rightarrow> string \<Rightarrow> StepTask list \<Rightarrow> string \<times> string option"
  SummarizeSteps :: "WorkflowTaskCtx \<Rightarrow> string \<Rightarrow> StepTask list \<Rightarrow> string \<times> string option"
  GetK8sClients :: "string \<Rightarrow> string \<Rightarrow> string + (nat \<times> nat \<times> nat)"
  GetBestHost :: "string \<Rightarrow> string \<Rightarrow> string"
  yaml_Marshal :: "JobContext \<Rightarrow> string + string"
  ensureDeleteConfigMap :: "string \<Rightarrow> JobLabel \<Rightarrow> nat option \<Rightarrow> string option"
  createJobConfigMap :: "string \<Rightarrow> string \<Rightarrow> JobLabel \<Rightarrow> string \<Rightarrow> nat option \<Rightarrow> string option"
  getBaseImage :: "string \<Rightarrow> string \<Rightarrow> string"
  buildJob :: "string \<Rightarrow> string \<Rightarrow> string \<Rightarrow> JobTask \<Rightarrow> JobTaskBuildSpec \<Rightarrow> WorkflowTaskCtx
                 \<Rightarrow> string + K8sJob"
  ensureDeleteJob :: "string \<Rightarrow> JobLabel \<Rightarrow> nat option \<Rightarrow> string option"
  updater_CreateJob :: "K8sJob \<Rightarrow> nat option \<Rightarrow> string option"
  waitJobEndWithFile :: "int64 \<Rightarrow> string \<Rightarrow> string \<Rightarrow> nat option \<Rightarrow> Status"
  getJobOutput :: "string \<Rightarrow> string \<Rightarrow> JobLabel \<Rightarrow> nat option \<Rightarrow> JobOutput list \<times> string option"
  saveContainerLog :: "string \<Rightarrow> string \<Rightarrow> string \<Rightarrow> string \<Rightarrow> int64 \<Rightarrow> JobLabel \<Rightarrow> nat option
                 \<Rightarrow> string option"

text \<open>
  What a phase does to the outside world, in order: log lines, calls that change the
  cluster, the log store or the variable context, and the start of the cleanup goroutine.
\<close>

datatype event =
    LogError string
  | LogInfo string
  | CallPrepareSteps
  | CallEnsureDeleteConfigMap string JobLabel
  | CallCreateJobConfigMap string string string
  | CallEnsureDeleteJob string JobLabel
  | CallCreateJob K8sJob
  | CallWaitJobEnd
  | CallGetJobOutput
  | CallGlobalContextSet string string
  | CallSaveContainerLog
  | CallSummarizeSteps
  | GoCleanup JobLabel

record FreestyleJobCtl =
  c_job :: JobTask
  c_jobName :: string
  c_workflowCtx :: WorkflowTaskCtx
  c_kubeclient :: "nat option"
  c_clientset :: "nat option"
  c_restConfig :: "nat option"
  c_jobTaskSpec :: JobTaskBuildSpec

definition DindServer :: string where
  "DindServer = ''dind''"

definition KoderoverAgentNamespace :: string where
  "KoderoverAgentNamespace = ''koderover-agent''"

definition setProperties :: "FreestyleJobCtl \<Rightarrow> JobProperties \<Rightarrow> FreestyleJobCtl" where
  "setProperties c p = c\<lparr>c_jobTaskSpec := (c_jobTaskSpec c)\<lparr>Properties := p\<rparr>\<rparr>"

definition mkJobLabel :: "FreestyleJobCtl \<Rightarrow> JobLabel" where
  "mkJobLabel c =
     \<lparr> jl_WorkflowName = ctx_WorkflowName (c_workflowCtx c),
       jl_TaskID = ctx_TaskID (c_workflowCtx c),
       jl_JobType = job_JobType (c_job c),
       jl_JobName = job_Name (c_job c) \<rparr>"

text \<open>\<open>prepare\<close>: defaults, then step preparation; its error fails the job.\<close>

definition prepare :: "JobEnv \<Rightarrow> FreestyleJobCtl \<Rightarrow> FreestyleJobCtl \<times> event list \<times> string option" where
  "prepare env c =
     (let p0 = Properties (c_jobTaskSpec c);
          p1 = (if sint (Timeout p0) \<le> 0 then p0\<lparr>Timeout := 600\<rparr> else p0);
          p2 = (if ResourceRequest p1 = [] then p1\<lparr>ResourceRequest := MinRequest env\<rparr> else p1);
          p3 = (if ClusterID p2 = [] then p2\<lparr>ClusterID := LocalClusterID env\<rparr> else p2);
          (paths, err) = PrepareSteps env (c_workflowCtx c) (Paths p3) (Steps (c_jobTaskSpec c));
          c1 = setProperties c (p3\<lparr>Paths := paths\<rparr>)
      in case err of
           Some e \<Rightarrow>
             (c1\<lparr>c_job := (c_job c1)\<lparr>job_Error := e, job_Status := StatusFailed\<rparr>\<rparr>,
              [CallPrepareSteps, LogError e], Some e)
         | None \<Rightarrow> (c1, [CallPrepareSteps], None))"

text \<open>
  \<open>andThen\<close> is Go's \<open>if err != nil { return err }\<close> between two steps of one
  function: the second step runs only when the first returned no error.
\<close>

type_synonym phase_result = "FreestyleJobCtl \<times> event list \<times> string option"

definition andThen :: "phase_result \<Rightarrow> (FreestyleJobCtl \<Rightarrow> phase_result) \<Rightarrow> phase_result" where
  "andThen r f =
     (case r of
        (c, ev, Some e) \<Rightarrow> (c, ev, Some e)
      | (c, ev, None) \<Rightarrow> (case f c of (c', ev', r') \<Rightarrow> (c', ev @ ev', r')))"

definition failJob :: "FreestyleJobCtl \<Rightarrow> string \<Rightarrow> FreestyleJobCtl" where
  "failJob c msg = c\<lparr>c_job := (c_job c)\<lparr>job_Status := StatusFailed, job_Error := msg\<rparr>\<rparr>"

text \<open>\<open>run\<close>, the switch on the cluster id: namespace and cluster clients.\<close>

definition selectCluster :: "JobEnv \<Rightarrow> FreestyleJobCtl \<Rightarrow> phase_result" where
  "selectCluster env c =
     (let hubServerAddr = HubServerAddress env;
          p = Properties (c_jobTaskSpec c)
      in if ClusterID p = LocalClusterID env then
           ((setProperties c (p\<lparr>Namespace := zadigconfig_Namespace env\<rparr>))
              \<lparr>c_kubeclient := Some (krkubeclient_Client env),
               c_clientset := Some (krkubeclient_Clientset env),
               c_restConfig := Some (krkubeclient_RESTConfig env)\<rparr>, [], None)
         else
           (let c1 = setProperties c (p\<lparr>Namespace := AttachedClusterNamespace env\<rparr>)
            in case GetK8sClients env hubServerAddr (ClusterID p) of
                 Inl e \<Rightarrow>
                   (c1\<lparr>c_job := (c_job c1)\<lparr>job_Status := StatusFailed, job_Error := e,
                                         job_EndTime := time_Now_Unix env\<rparr>\<rparr>, [], Some e)
               | Inr (crClient, cs, rc) \<Rightarrow>
                   (c1\<lparr>c_kubeclient := Some crClient, c_clientset := Some cs,
                       c_restConfig := Some rc\<rparr>, [], None)))"

text \<open>
  \<open>run\<close>, the docker-host block: \<open>dockerHost\<close> starts as the empty string and is
  assigned in three of the four branches; \<open>Properties.DockerHost\<close> is then overwritten
  with it.
\<close>

definition rewriteDockerHost :: "JobEnv \<Rightarrow> string \<Rightarrow> string \<Rightarrow> string" where
  "rewriteDockerHost env clusterID host =
     (let replaceDindServer = ''.'' @ DindServer;
          dockerHost = []
      in if clusterID \<noteq> [] \<and> clusterID \<noteq> LocalClusterID env then
           (if strings_Contains host (config_Namespace env)
            then strings_Replace1 host (config_Namespace env) KoderoverAgentNamespace
            else strings_Replace1 host replaceDindServer
                   (replaceDindServer @ ''.'' @ KoderoverAgentNamespace))
         else if clusterID = [] \<or> clusterID = LocalClusterID env then
           (if \<not> strings_Contains host (config_Namespace env)
            then strings_Replace1 host replaceDindServer
                   (replaceDindServer @ ''.'' @ config_Namespace env)
            else dockerHost)
         else dockerHost)"

definition chooseDockerHost :: "JobEnv \<Rightarrow> FreestyleJobCtl \<Rightarrow> phase_result" where
  "chooseDockerHost env c =
     (let p = Properties (c_jobTaskSpec c);
          p1 = p\<lparr>DockerHost := GetBestHost env (HubServerAddress env) (ClusterID p)\<rparr>;
          p2 = p1\<lparr>DockerHost := rewriteDockerHost env (ClusterID p1) (DockerHost p1)\<rparr>
      in (setProperties c p2, [], None))"

text \<open>\<open>run\<close>: the job context is serialised and stored in a fresh configmap.\<close>

definition createConfigMap :: "JobEnv \<Rightarrow> FreestyleJobCtl \<Rightarrow> phase_result" where
  "createConfigMap env c =
     (case yaml_Marshal env (BuildJobExcutorContext (c_jobTaskSpec c) (c_job c) (c_workflowCtx c)) of
        Inl err \<Rightarrow>
          (let msg = ''cannot Jobexcutor.Context data: '' @ err
           in (failJob c msg, [LogError msg], Some msg))
      | Inr jobCtxBytes \<Rightarrow>
          (let jobLabel = mkJobLabel c;
               ns = Namespace (Properties (c_jobTaskSpec c))
           in case ensureDeleteConfigMap env ns jobLabel (c_kubeclient c) of
                Some e \<Rightarrow>
                  (failJob c e, [CallEnsureDeleteConfigMap ns jobLabel, LogError e], Some e)
              | None \<Rightarrow>
                  (case createJobConfigMap env ns (c_jobName c) jobLabel jobCtxBytes (c_kubeclient c) of
                     Some err \<Rightarrow>
                       (let msg = ''createJobConfigMap error: '' @ err
                        in (failJob c msg,
                            [CallEnsureDeleteConfigMap ns jobLabel,
                             CallCreateJobConfigMap ns (c_jobName c) jobCtxBytes,
                             LogError msg], Some msg))
                   | None \<Rightarrow>
                       (c, [CallEnsureDeleteConfigMap ns jobLabel,
                            CallCreateJobConfigMap ns (c_jobName c) jobCtxBytes,
                            LogInfo (''succeed to create cm for job '' @ c_jobName c)], None))))"

text \<open>\<open>run\<close>: the workload is built, any earlier one deleted, and the new one created.\<close>

definition createWorkload :: "JobEnv \<Rightarrow> FreestyleJobCtl \<Rightarrow> phase_result" where
  "createWorkload env c =
     (let p = Properties (c_jobTaskSpec c);
          jobLabel = mkJobLabel c;
          jobImage = getBaseImage env (BuildOS p) (ImageFrom p)
      in case buildJob env jobImage (c_jobName c) (Namespace p) (c_job c) (c_jobTaskSpec c)
                (c_workflowCtx c) of
           Inl err \<Rightarrow>
             (let msg = ''create job context error: '' @ err
              in (failJob c msg, [LogError msg], Some msg))
         | Inr built \<Rightarrow>
             (let k8sJob = built\<lparr>k8s_Namespace := Namespace p\<rparr>
              in case ensureDeleteJob env (Namespace p) jobLabel (c_kubeclient c) of
                   Some err \<Rightarrow>
                     (let msg = ''delete job error: '' @ err
                      in (failJob c msg,
                          [CallEnsureDeleteJob (Namespace p) jobLabel, LogError msg], Some msg))
                 | None \<Rightarrow>
                     (case updater_CreateJob env k8sJob (c_kubeclient c) of
                        Some err \<Rightarrow>
                          (let msg = ''create job error: '' @ err
                           in (failJob c msg,
                               [CallEnsureDeleteJob (Namespace p) jobLabel, CallCreateJob k8sJob,
                                LogError msg], Some msg))
                      | None \<Rightarrow>
                          (c, [CallEnsureDeleteJob (Namespace p) jobLabel, CallCreateJob k8sJob,
                               LogInfo (''succeed to create job '' @ c_jobName c)], None))))"

definition run :: "JobEnv \<Rightarrow> FreestyleJobCtl \<Rightarrow> phase_result" where
  "run env c =
     andThen (selectCluster env c) (\<lambda>c1.
     andThen (chooseDockerHost env c1) (\<lambda>c2.
     andThen (createConfigMap env c2) (\<lambda>c3.
     createWorkload env c3)))"

text \<open>\<open>wait\<close>: the job's status becomes what the wait on the workload reports.\<close>

definition wait :: "JobEnv \<Rightarrow> FreestyleJobCtl \<Rightarrow> FreestyleJobCtl \<times> event list" where
  "wait env c =
     (let p = Properties (c_jobTaskSpec c);
          status = waitJobEndWithFile env (Timeout p) (Namespace p) (c_jobName c) (c_kubeclient c)
      in (c\<lparr>c_job := (c_job c)\<lparr>job_Status := status\<rparr>\<rparr>, [CallWaitJobEnd]))"

text \<open>
  \<open>complete\<close>.  The loop over the outputs writes each one into the variable context; the
  loop state is the context and the writes made so far.
\<close>

fun writeOutputs ::
  "string \<Rightarrow> JobOutput list \<Rightarrow> WorkflowTaskCtx \<times> event list \<Rightarrow> WorkflowTaskCtx \<times> event list" where
  "writeOutputs name [] st = st"
| "writeOutputs name (output # rest) (wctx, evs) =
     (let key = strings_Join [''workflow'', name, jo_Name output] ''.''
      in writeOutputs name rest
           (GlobalContextSet wctx key (jo_Value output),
            evs @ [CallGlobalContextSet key (jo_Value output)]))"

text \<open>
  The deferred function of \<open>complete\<close> starts a goroutine that deletes the job and the
  configmap of the label set.  It runs on every return of \<open>complete\<close>, so \<open>GoCleanup\<close>
  closes the events of each branch; what the goroutine does afterwards is concurrent with
  the caller and is not part of the model.
\<close>

definition complete :: "JobEnv \<Rightarrow> FreestyleJobCtl \<Rightarrow> FreestyleJobCtl \<times> event list" where
  "complete env c =
     (let jobLabel = mkJobLabel c;
          p = Properties (c_jobTaskSpec c);
          (outputs, err) = getJobOutput env (Namespace p) (job_Name (c_job c)) jobLabel (c_kubeclient c);
          (c1, ev1) = (case err of
                         Some e \<Rightarrow> (c\<lparr>c_job := (c_job c)\<lparr>job_Error := e\<rparr>\<rparr>,
                                    [CallGetJobOutput, LogError e])
                       | None \<Rightarrow> (c, [CallGetJobOutput]));
          (wctx, ev2) = writeOutputs (job_Name (c_job c1)) outputs (c_workflowCtx c1, ev1);
          c2 = c1\<lparr>c_workflowCtx := wctx\<rparr>
      in case saveContainerLog env (Namespace p) (ClusterID p) (ctx_WorkflowName wctx)
                (job_Name (c_job c2)) (ctx_TaskID wctx) jobLabel (c_kubeclient c2) of
           Some e \<Rightarrow>
             (c2\<lparr>c_job := (c_job c2)\<lparr>job_Error := e\<rparr>\<rparr>,
              ev2 @ [CallSaveContainerLog, LogError e, GoCleanup jobLabel])
         | None \<Rightarrow>
             (case SummarizeSteps env wctx (Paths p) (Steps (c_jobTaskSpec c2)) of
                (paths, Some e) \<Rightarrow>
                  ((setProperties c2 (p\<lparr>Paths := paths\<rparr>))
                     \<lparr>c_job := (c_job c2)\<lparr>job_Error := e\<rparr>\<rparr>,
                   ev2 @ [CallSaveContainerLog, CallSummarizeSteps, LogError e, GoCleanup jobLabel])
              | (paths, None) \<Rightarrow>
                  (setProperties c2 (p\<lparr>Paths := paths\<rparr>),
                   ev2 @ [CallSaveContainerLog, CallSummarizeSteps, GoCleanup jobLabel])))"

text \<open>\<open>Run\<close>: the four phases; an error of \<open>prepare\<close> or of \<open>run\<close> returns at once.\<close>

definition Run :: "JobEnv \<Rightarrow> FreestyleJobCtl \<Rightarrow> FreestyleJobCtl \<times> event list" where
  "Run env c =
     (case prepare env c of
        (c1, ev1, Some err) \<Rightarrow> (c1, ev1)
      | (c1, ev1, None) \<Rightarrow>
          (case run env c1 of
             (c2, ev2, Some err) \<Rightarrow> (c2, ev1 @ ev2)
           | (c2, ev2, None) \<Rightarrow>
               (let (c3, ev3) = wait env c2;
                    (c4, ev4) = complete env c3
                in (c4, ev1 @ ev2 @ ev3 @ ev4))))"

text \<open>Whether the \<open>complete\<close> phase ran: it is the only phase that starts the cleanup.\<close>

fun isGoCleanup :: "event \<Rightarrow> bool" where
  "isGoCleanup (GoCleanup l) = True"
| "isGoCleanup e = False"

definition completeRan :: "event list \<Rightarrow> bool" where
  "completeRan evs = (filter isGoCleanup evs \<noteq> [])"

text \<open>Sample collaborators and a sample controller, for evaluating the phases.\<close>

definition sampleEnv :: JobEnv where
  "sampleEnv =
     \<lparr> HubServerAddress = ''hub:26000'',
       zadigconfig_Namespace = ''zadig'',
       config_Namespace = ''zadig'',
       LocalClusterID = ''0123456789abcdef12345678'',
       AttachedClusterNamespace = ''koderover-agent'',
       MinRequest = ''min'',
       krkubeclient_Client = 1,
       krkubeclient_Clientset = 2,
       krkubeclient_RESTConfig = 3,
       time_Now_Unix = 1700000000,
       PrepareSteps = (\<lambda>wctx paths steps. (paths, None)),
       SummarizeSteps = (\<lambda>wctx paths steps. (paths, None)),
       GetK8sClients = (\<lambda>hub cid. Inr (4, 5, 6)),
       GetBestHost = (\<lambda>hub cid. ''tcp://dind-0.dind:2375''),
       yaml_Marshal = (\<lambda>jc. Inr (jc_Name jc)),
       ensureDeleteConfigMap = (\<lambda>ns l cl. None),
       createJobConfigMap = (\<lambda>ns name l data cl. None),
       getBaseImage = (\<lambda>os imageFrom. ''job-excutor''),
       buildJob = (\<lambda>image name ns j spec wctx. Inr \<lparr>k8s_Namespace = [], k8s_Body = image\<rparr>),
       ensureDeleteJob = (\<lambda>ns l cl. None),
       updater_CreateJob = (\<lambda>j cl. None),
       waitJobEndWithFile = (\<lambda>timeout ns name cl. StatusPassed),
       getJobOutput = (\<lambda>ns name l cl. ([\<lparr>jo_Name = ''VERSION'', jo_Value = ''1.2.3''\<rparr>], None)),
       saveContainerLog = (\<lambda>ns cid wf name tid l cl. None) \<rparr>"

definition sampleCtl :: FreestyleJobCtl where
  "sampleCtl =
     \<lparr> c_job = \<lparr> job_Name = ''build'', job_JobType = ''freestyle'', job_Status = StatusRunning,
               job_StartTime = 0, job_EndTime = 0, job_Error = [],
               job_Outputs = [\<lparr>out_Name = ''VERSION'', out_Description = []\<rparr>] \<rparr>,
       c_jobName = ''wf-1-job'',
       c_workflowCtx = \<lparr> ctx_WorkflowName = ''wf'', ctx_TaskID = 1, ctx_Workspace = ''/workspace'',
                       ctx_GlobalContext = Map.empty \<rparr>,
       c_kubeclient = None,
       c_clientset = None,
       c_restConfig = None,
       c_jobTaskSpec =
         \<lparr> Properties = \<lparr> Timeout = 60, ResourceRequest = [], ClusterID = [], BuildOS = ''focal'',
                          ImageFrom = ''koderover'', Namespace = [],
                          Envs = [\<lparr>kv_Key = ''A'', kv_Value = ''1'', kv_IsCredential = False\<rparr>,
                                  \<lparr>kv_Key = ''TOKEN'', kv_Value = ''s3'', kv_IsCredential = True\<rparr>],
                          Paths = [], DockerHost = [], ResReqSpec = [] \<rparr>,
           Steps = [] \<rparr> \<rparr>"

fun isContextSet :: "event \<Rightarrow> bool" where
  "isContextSet (CallGlobalContextSet k v) = True"
| "isContextSet e = False"

definition failingPrepareEnv :: JobEnv where
  "failingPrepareEnv =
     sampleEnv\<lparr>PrepareSteps := (\<lambda>wctx paths steps. (paths, Some ''prepare step git failed''))\<rparr>"

definition failingCreateJobEnv :: JobEnv where
  "failingCreateJobEnv = sampleEnv\<lparr>updater_CreateJob := (\<lambda>j cl. Some ''quota exceeded'')\<rparr>"

definition failingLogEnv :: JobEnv where
  "failingLogEnv =
     sampleEnv\<lparr>saveContainerLog := (\<lambda>ns cid wf name tid l cl. Some ''log store unreachable'')\<rparr>"

definition namespacedHostEnv :: JobEnv where
  "namespacedHostEnv = sampleEnv\<lparr>GetBestHost := (\<lambda>hub cid. ''tcp://dind-0.dind.zadig:2375'')\<rparr>"

section \<open>Workflow task service: data model\<close>

text \<open>
  The error values of \<open>pkg/tool/errors\<close>.  Modelled from the spec: the package is not among
  the sources; the spec names the error kinds and says that each carries a description.
  \<open>AddDesc k d\<close> is \<open>k.AddDesc(d)\<close>, \<open>AddErr k m\<close> is \<open>k.AddErr(err)\<close> for an
  error with message \<open>m\<close>, and \<open>OtherError\<close> is an error a collaborator returned itself.
\<close>

datatype errkind = ErrFindWorkflow | ErrGetCounter | ErrCreateTask | ErrGetTask | ErrApproveTask

datatype error = AddDesc errkind string | AddErr errkind string | OtherError string

text \<open>
  The workflow definition.  A \<open>spec\<close> field is \<open>interface{}\<close> in the sources: either a
  document that is still undecoded or one of the structs the service assigns to it.
  A repository and an approval are opaque documents.
\<close>

type_synonym Repository = string

record Param =
  param_Name :: string
  param_Value :: string

record StepGitSpec =
  git_Repos :: "Repository list"

datatype StepSpec = RawStepSpec string | GitStepSpec StepGitSpec

record Step =
  step_Name :: string
  step_Timeout :: int64
  step_StepType :: string
  step_Spec :: StepSpec

record FreestyleJobSpec =
  fs_Properties :: string
  fs_Steps :: "Step list"
  fs_Outputs :: "Output list"

record ServiceAndBuild =
  sb_ServiceName :: string
  sb_ServiceModule :: string
  sb_BuildName :: string
  sb_Repos :: "Repository list"

record ZadigBuildJobSpec =
  zb_DockerRegistryID :: string
  zb_ServiceAndBuilds :: "ServiceAndBuild list"

datatype JobSpec = RawJobSpec string | BuildJobSpec ZadigBuildJobSpec | FreestyleSpec FreestyleJobSpec

record Job =
  Name :: string
  JobType :: string
  Skipped :: bool
  Spec :: JobSpec

record WorkflowStage =
  ws_Name :: string
  ws_Parallel :: bool
  ws_Approval :: "string option"
  ws_Jobs :: "Job list"

record WorkflowV4 =
  wf_Name :: string
  wf_KeyVals :: "KeyVal list"
  wf_Params :: "Param list"
  wf_Stages :: "WorkflowStage list"
  wf_Project :: string
  wf_MultiRun :: bool

record StageTask =
  stage_Name :: string
  stage_Parallel :: bool
  stage_Approval :: "string option"
  stage_Jobs :: "JobTask list"

record WorkflowTask =
  task_TaskID :: int64
  task_WorkflowName :: string
  task_ProjectName :: string
  task_Params :: "Param list"
  task_KeyVals :: "KeyVal list"
  task_MultiRun :: bool
  task_Status :: Status
  task_TaskCreator :: string
  task_TaskRevoker :: string
  task_CreateTime :: int64
  task_Stages :: "StageTask list"
  task_WorkflowArgs :: "WorkflowV4 option"
  task_OriginWorkflowArgs :: "WorkflowV4 option"

record CreateTaskV4Resp =
  resp_ProjectName :: string
  resp_WorkflowName :: string
  resp_TaskID :: int64

text \<open>
  The job types.  Modelled from the spec: the constants of \<open>config\<close> are not among the
  sources; the spec lists the job types by these names.
\<close>

definition JobZadigBuild :: string where
  "JobZadigBuild = ''zadig-build''"

definition JobFreestyle :: string where
  "JobFreestyle = ''freestyle''"

text \<open>
  The collaborators of the service: the linter of definitions, \<open>IToi\<close> (a copy through
  serialisation into a freshly allocated document, one field per target type), the counter,
  the job controllers of \<open>jobctl\<close>, the repository lookup \<open>setManunalBuilds\<close> (it
  fills in the repositories it is given), the store's verdict on a create, and the clock.
  A collaborator that changes the document it is handed returns the changed document.
\<close>

record TaskEnv =
  LintWorkflowV4 :: "WorkflowV4 \<Rightarrow> error option"
  IToi_WorkflowV4 :: "WorkflowV4 \<Rightarrow> string + WorkflowV4"
  IToi_ZadigBuildJobSpec :: "JobSpec \<Rightarrow> string + ZadigBuildJobSpec"
  IToi_FreestyleJobSpec :: "JobSpec \<Rightarrow> string + FreestyleJobSpec"
  IToi_StepGitSpec :: "StepSpec \<Rightarrow> string + StepGitSpec"
  WorkflowTaskV4Fmt :: "string \<Rightarrow> string"
  GetNextSeq :: "string \<Rightarrow> string + int64"
  RemoveFixedValueMarks :: "WorkflowV4 \<Rightarrow> string + WorkflowV4"
  RenderGlobalVariables :: "WorkflowV4 \<Rightarrow> int64 \<Rightarrow> string \<Rightarrow> string + WorkflowV4"
  config_StepGit :: string
  setManunalBuilds :: "Repository list \<Rightarrow> Repository list \<Rightarrow> string + Repository list"
  ToJobs :: "Job \<Rightarrow> WorkflowV4 \<Rightarrow> int64 \<Rightarrow> string + JobTask list"
  storeCreate :: "WorkflowTask \<Rightarrow> string option"
  task_Now_Unix :: int64

text \<open>
  The task store behind \<open>workflowcontroller.CreateTask\<close> and the task collection's
  \<open>Find\<close>.  Modelled from the spec: neither is among the sources; the spec has the task
  persisted on creation and found again by workflow name and task id.
\<close>

type_synonym TaskStore = "string \<times> int64 \<rightharpoonup> WorkflowTask"

definition CreateTask :: "TaskEnv \<Rightarrow> WorkflowTask \<Rightarrow> TaskStore \<Rightarrow> string option \<times> TaskStore" where
  "CreateTask env t store =
     (case storeCreate env t of
        Some e \<Rightarrow> (Some e, store)
      | None \<Rightarrow> (None, store((task_WorkflowName t, task_TaskID t) \<mapsto> t)))"

definition Find :: "TaskStore \<Rightarrow> string \<Rightarrow> int64 \<Rightarrow> string + WorkflowTask" where
  "Find store workflowName taskID =
     (case store (workflowName, taskID) of
        None \<Rightarrow> Inl ''mongo: no documents in result''
      | Some t \<Rightarrow> Inr t)"

section \<open>Workflow task service: materialization\<close>

text \<open>
  \<open>setZadigBuildRepos\<close>: the spec is decoded, the repositories of every build are filled
  in, and the decoded spec replaces the job's spec.
\<close>

fun buildsLoop :: "TaskEnv \<Rightarrow> ServiceAndBuild list \<Rightarrow> string + ServiceAndBuild list" where
  "buildsLoop env [] = Inr []"
| "buildsLoop env (build # rest) =
     (case setManunalBuilds env (sb_Repos build) (sb_Repos build) of
        Inl err \<Rightarrow> Inl err
      | Inr repos \<Rightarrow>
          (case buildsLoop env rest of
             Inl err \<Rightarrow> Inl err
           | Inr rest' \<Rightarrow> Inr (build\<lparr>sb_Repos := repos\<rparr> # rest')))"

definition setZadigBuildRepos :: "TaskEnv \<Rightarrow> Job \<Rightarrow> string + Job" where
  "setZadigBuildRepos env job =
     (case IToi_ZadigBuildJobSpec env (Spec job) of
        Inl err \<Rightarrow> Inl err
      | Inr spec \<Rightarrow>
          (case buildsLoop env (zb_ServiceAndBuilds spec) of
             Inl err \<Rightarrow> Inl err
           | Inr builds \<Rightarrow> Inr (job\<lparr>Spec := BuildJobSpec (spec\<lparr>zb_ServiceAndBuilds := builds\<rparr>)\<rparr>)))"

text \<open>\<open>setFreeStyleRepos\<close>: the same for the git steps of a freestyle job.\<close>

fun stepsLoop :: "TaskEnv \<Rightarrow> Step list \<Rightarrow> string + Step list" where
  "stepsLoop env [] = Inr []"
| "stepsLoop env (step # rest) =
     (if step_StepType step \<noteq> config_StepGit env then
        (case stepsLoop env rest of
           Inl err \<Rightarrow> Inl err
         | Inr rest' \<Rightarrow> Inr (step # rest'))
      else
        (case IToi_StepGitSpec env (step_Spec step) of
           Inl err \<Rightarrow> Inl err
         | Inr stepSpec \<Rightarrow>
             (case setManunalBuilds env (git_Repos stepSpec) (git_Repos stepSpec) of
                Inl err \<Rightarrow> Inl err
              | Inr repos \<Rightarrow>
                  (case stepsLoop env rest of
                     Inl err \<Rightarrow> Inl err
                   | Inr rest' \<Rightarrow>
                       Inr (step\<lparr>step_Spec := GitStepSpec (stepSpec\<lparr>git_Repos := repos\<rparr>)\<rparr>
                            # rest')))))"

definition setFreeStyleRepos :: "TaskEnv \<Rightarrow> Job \<Rightarrow> string + Job" where
  "setFreeStyleRepos env job =
     (case IToi_FreestyleJobSpec env (Spec job) of
        Inl err \<Rightarrow> Inl err
      | Inr spec \<Rightarrow>
          (case stepsLoop env (fs_Steps spec) of
             Inl err \<Rightarrow> Inl err
           | Inr steps \<Rightarrow> Inr (job\<lparr>Spec := FreestyleSpec (spec\<lparr>fs_Steps := steps\<rparr>)\<rparr>)))"

text \<open>
  The two type-specific preparations in the body of the job loop of
  \<open>CreateWorkflowTaskV4\<close>; an error of either is returned as \<open>ErrCreateTask\<close>.
\<close>

definition prepareJob :: "TaskEnv \<Rightarrow> Job \<Rightarrow> error + Job" where
  "prepareJob env job =
     (case (if JobType job = JobZadigBuild then setZadigBuildRepos env job else Inr job) of
        Inl err \<Rightarrow> Inl (AddDesc ErrCreateTask err)
      | Inr job1 \<Rightarrow>
          (case (if JobType job1 = JobFreestyle then setFreeStyleRepos env job1 else Inr job1) of
             Inl err \<Rightarrow> Inl (AddDesc ErrCreateTask err)
           | Inr job2 \<Rightarrow> Inr job2))"

text \<open>
  The loops of \<open>CreateWorkflowTaskV4\<close> walk pointers into the workflow, so a prepared job
  is changed inside the workflow that \<open>ToJobs\<close> sees and that the task keeps as its
  arguments.  A pointer is its position: stage \<open>i\<close>, job \<open>j\<close>.  The positions are those of
  the slice when the loop starts, and no step changes a slice's length.
\<close>

definition jobAt :: "WorkflowV4 \<Rightarrow> nat \<Rightarrow> nat \<Rightarrow> Job" where
  "jobAt w i j = ws_Jobs (wf_Stages w ! i) ! j"

definition setJobAt :: "WorkflowV4 \<Rightarrow> nat \<Rightarrow> nat \<Rightarrow> Job \<Rightarrow> WorkflowV4" where
  "setJobAt w i j job =
     w\<lparr>wf_Stages := (wf_Stages w)
          [i := (wf_Stages w ! i)\<lparr>ws_Jobs := (ws_Jobs (wf_Stages w ! i))[j := job]\<rparr>]\<rparr>"

fun jobsLoop ::
  "TaskEnv \<Rightarrow> int64 \<Rightarrow> nat \<Rightarrow> nat list \<Rightarrow> WorkflowV4 \<times> JobTask list
     \<Rightarrow> error + (WorkflowV4 \<times> JobTask list)" where
  "jobsLoop env nextTaskID i [] st = Inr st"
| "jobsLoop env nextTaskID i (j # js) (w, stageJobs) =
     (let job = jobAt w i j
      in if Skipped job then jobsLoop env nextTaskID i js (w, stageJobs)
         else case prepareJob env job of
                Inl e \<Rightarrow> Inl e
              | Inr job' \<Rightarrow>
                  (let w' = setJobAt w i j job'
                   in case ToJobs env job' w' nextTaskID of
                        Inl err \<Rightarrow> Inl (AddDesc ErrCreateTask err)
                      | Inr jobs \<Rightarrow> jobsLoop env nextTaskID i js (w', stageJobs @ jobs)))"

fun stagesLoop ::
  "TaskEnv \<Rightarrow> int64 \<Rightarrow> nat list \<Rightarrow> WorkflowV4 \<times> StageTask list
     \<Rightarrow> error + (WorkflowV4 \<times> StageTask list)" where
  "stagesLoop env nextTaskID [] st = Inr st"
| "stagesLoop env nextTaskID (i # is) (w, stages) =
     (let stage = wf_Stages w ! i;
          stageTask = \<lparr> stage_Name = ws_Name stage, stage_Parallel = ws_Parallel stage,
                        stage_Approval = ws_Approval stage, stage_Jobs = [] \<rparr>
      in case jobsLoop env nextTaskID i [0..<length (ws_Jobs stage)] (w, []) of
           Inl e \<Rightarrow> Inl e
         | Inr (w', stageJobs) \<Rightarrow>
             stagesLoop env nextTaskID is
               (w', if length stageJobs > 0
                    then stages @ [stageTask\<lparr>stage_Jobs := stageJobs\<rparr>]
                    else stages))"

text \<open>\<open>workflowTaskLint\<close>: at least one stage, and at least one job in every stage.\<close>

fun lintStages :: "string \<Rightarrow> int64 \<Rightarrow> StageTask list \<Rightarrow> error option" where
  "lintStages workflowName taskID [] = None"
| "lintStages workflowName taskID (stage # rest) =
     (if length (stage_Jobs stage) \<le> 0 then
        Some (AddDesc ErrCreateTask
               (''no job found in workflow task: '' @ workflowName @ '',taskID: '' @ fmt_d taskID
                @ '',stage: '' @ stage_Name stage))
      else lintStages workflowName taskID rest)"

definition workflowTaskLint :: "WorkflowTask \<Rightarrow> error option" where
  "workflowTaskLint workflowTask =
     (if length (task_Stages workflowTask) \<le> 0 then
        Some (AddDesc ErrCreateTask
               (''no stage found in workflow task: '' @ task_WorkflowName workflowTask
                @ '',taskID: '' @ fmt_d (task_TaskID workflowTask)))
      else lintStages (task_WorkflowName workflowTask) (task_TaskID workflowTask)
             (task_Stages workflowTask))"

text \<open>
  \<open>CreateWorkflowTaskV4\<close>.  The result is the response, the error and the task store
  after the call.  \<open>originTaskArgs\<close> is a struct allocated by the function and filled by
  \<open>IToi\<close> from the serialised workflow, so it shares no memory with \<open>workflow\<close>; the
  steps after it are handed the pointer \<open>workflow\<close> and the jobs inside it, and the model
  threads the workflow they change through them (\<open>workflow1\<close>, \<open>workflow2\<close>,
  \<open>workflow3\<close>).  The two notifications that follow a successful create only log a
  warning when they fail; they change neither the result nor the store.  Log lines are
  not part of the result.
\<close>

definition CreateWorkflowTaskV4 ::
  "TaskEnv \<Rightarrow> string \<Rightarrow> WorkflowV4 \<Rightarrow> TaskStore \<Rightarrow> (CreateTaskV4Resp \<times> error option) \<times> TaskStore" where
  "CreateWorkflowTaskV4 env user workflow store =
     (let resp = \<lparr> resp_ProjectName = wf_Project workflow, resp_WorkflowName = wf_Name workflow,
                   resp_TaskID = 0 \<rparr>
      in case LintWorkflowV4 env workflow of
           Some err \<Rightarrow> ((resp, Some err), store)
         | None \<Rightarrow>
      (case IToi_WorkflowV4 env workflow of
           Inl err \<Rightarrow> ((resp, Some (AddDesc ErrCreateTask err)), store)
         | Inr originTaskArgs \<Rightarrow>
      (case GetNextSeq env (WorkflowTaskV4Fmt env (wf_Name workflow)) of
           Inl err \<Rightarrow> ((resp, Some (AddDesc ErrGetCounter err)), store)
         | Inr nextTaskID \<Rightarrow>
      (let resp = resp\<lparr>resp_TaskID := nextTaskID\<rparr>
       in case RemoveFixedValueMarks env workflow of
            Inl err \<Rightarrow> ((resp, Some (AddDesc ErrCreateTask err)), store)
          | Inr workflow1 \<Rightarrow>
      (case RenderGlobalVariables env workflow1 nextTaskID user of
            Inl err \<Rightarrow> ((resp, Some (AddDesc ErrCreateTask err)), store)
          | Inr workflow2 \<Rightarrow>
      (case stagesLoop env nextTaskID [0..<length (wf_Stages workflow2)] (workflow2, []) of
            Inl e \<Rightarrow> ((resp, Some e), store)
          | Inr (workflow3, stages) \<Rightarrow>
      (let workflowTask =
             \<lparr> task_TaskID = nextTaskID,
               task_WorkflowName = wf_Name workflow2,
               task_ProjectName = wf_Project workflow2,
               task_Params = wf_Params workflow2,
               task_KeyVals = wf_KeyVals workflow2,
               task_MultiRun = wf_MultiRun workflow2,
               task_Status = StatusUnset,
               task_TaskCreator = user,
               task_TaskRevoker = user,
               task_CreateTime = task_Now_Unix env,
               task_Stages = stages,
               task_WorkflowArgs = None,
               task_OriginWorkflowArgs = Some originTaskArgs \<rparr>
       in case workflowTaskLint workflowTask of
            Some err \<Rightarrow> ((resp, Some err), store)
          | None \<Rightarrow>
      (let workflowTask' = workflowTask\<lparr>task_WorkflowArgs := Some workflow3,
                                        task_Status := StatusCreated\<rparr>
       in case CreateTask env workflowTask' store of
            (Some err, store') \<Rightarrow> ((resp, Some (AddDesc ErrCreateTask err)), store')
          | (None, store') \<Rightarrow> ((resp, None), store')))))))))"

definition CloneWorkflowTaskV4 :: "TaskStore \<Rightarrow> string \<Rightarrow> int64 \<Rightarrow> WorkflowV4 option \<times> error option" where
  "CloneWorkflowTaskV4 store workflowName taskID =
     (case Find store workflowName taskID of
        Inl err \<Rightarrow> (None, Some (AddErr ErrGetTask err))
      | Inr task \<Rightarrow> (task_OriginWorkflowArgs task, None))"

section \<open>Workflow task service: stage approval\<close>

text \<open>
  \<open>ApproveStage\<close>.  The workflow controller is a collaborator; the result lists the
  calls made to it, each with its arguments, beside the error returned.  Log lines are not
  part of the result.
\<close>

record ApproveCall =
  ac_workflowName :: string
  ac_stageName :: string
  ac_userName :: string
  ac_userID :: string
  ac_comment :: string
  ac_taskID :: int64
  ac_approve :: bool

definition ApproveStage ::
  "(ApproveCall \<Rightarrow> string option) \<Rightarrow> string \<Rightarrow> string \<Rightarrow> string \<Rightarrow> string \<Rightarrow> string \<Rightarrow> int64 \<Rightarrow> bool
     \<Rightarrow> error option \<times> ApproveCall list" where
  "ApproveStage controller workflowName stageName userName userID comment taskID approve =
     (if workflowName = [] \<or> stageName = [] \<or> taskID = 0 then
        (let errMsg = ''can not find approved workflow: '' @ workflowName @ '', taskID: ''
                      @ fmt_d taskID @ '',stage: '' @ stageName
         in (Some (AddDesc ErrApproveTask errMsg), []))
      else
        (let call = \<lparr> ac_workflowName = workflowName, ac_stageName = stageName,
                        ac_userName = userName, ac_userID = userID, ac_comment = comment,
                        ac_taskID = taskID, ac_approve = approve \<rparr>
         in case controller call of
              Some err \<Rightarrow> (Some (AddErr ErrApproveTask err), [call])
            | None \<Rightarrow> (None, [call])))"

section \<open>Ingress getter\<close>

text \<open>
  \<open>ListIngressesFormat\<close>.  \<open>ListResourceInCache\<close> is a collaborator: it fills the
  unstructured list it is handed for the namespace (with the selector that selects
  everything) and returns the filled list with its error.  An ingress and an unstructured
  object are opaque documents.
\<close>

record GroupVersionKind =
  gvk_Group :: string
  gvk_Kind :: string
  gvk_Version :: string

record UnstructuredList =
  ul_GroupVersionKind :: GroupVersionKind
  ul_Items :: "string list"

record IngressList =
  il_Items :: "string list"

fun ingressLoop :: "string list \<Rightarrow> string list \<Rightarrow> string list" where
  "ingressLoop [] res = res"
| "ingressLoop (item # rest) res = ingressLoop rest (res @ [item])"

definition ListIngressesFormat ::
  "(string \<Rightarrow> UnstructuredList \<Rightarrow> nat \<Rightarrow> UnstructuredList \<times> string option) \<Rightarrow> string \<Rightarrow> nat \<Rightarrow> bool
     \<Rightarrow> string list \<times> string option" where
  "ListIngressesFormat ListResourceInCache namespace cl lessThan122 =
     (let l = \<lparr> il_Items = [] \<rparr>;
          gvk = \<lparr> gvk_Group = ''extensions'', gvk_Kind = ''Ingress'', gvk_Version = ''v1beta1'' \<rparr>;
          gvk = (if \<not> lessThan122
                 then \<lparr> gvk_Group = ''networking.k8s.io'', gvk_Kind = ''Ingress'',
                        gvk_Version = ''v1'' \<rparr>
                 else gvk);
          u = \<lparr> ul_GroupVersionKind = gvk, ul_Items = [] \<rparr>;
          (u', err) = ListResourceInCache namespace u cl
      in case err of
           Some e \<Rightarrow> ([], Some e)
         | None \<Rightarrow> (ingressLoop (il_Items l) [], None))"

section \<open>Sample inputs\<close>

text \<open>
  A task environment whose marker removal and rendering both change the workflow, and a
  workflow of two stages: the first holds a freestyle job and a skipped job, the second
  only a skipped job.
\<close>

definition sampleJobTask :: "Job \<Rightarrow> JobTask" where
  "sampleJobTask job =
     \<lparr> job_Name = Name job, job_JobType = JobType job, job_Status = StatusUnset,
       job_StartTime = 0, job_EndTime = 0, job_Error = [], job_Outputs = [] \<rparr>"

definition sampleTaskEnv :: TaskEnv where
  "sampleTaskEnv =
     \<lparr> LintWorkflowV4 = (\<lambda>w. None),
       IToi_WorkflowV4 = (\<lambda>w. Inr w),
       IToi_ZadigBuildJobSpec =
         (\<lambda>s. case s of BuildJobSpec b \<Rightarrow> Inr b | _ \<Rightarrow> Inl ''not a zadig build spec''),
       IToi_FreestyleJobSpec =
         (\<lambda>s. case s of FreestyleSpec f \<Rightarrow> Inr f | _ \<Rightarrow> Inl ''not a freestyle spec''),
       IToi_StepGitSpec =
         (\<lambda>s. case s of GitStepSpec g \<Rightarrow> Inr g | _ \<Rightarrow> Inl ''not a git step spec''),
       WorkflowTaskV4Fmt = (\<lambda>name. ''WorkflowTaskV4:'' @ name),
       GetNextSeq = (\<lambda>key. Inr 7),
       RemoveFixedValueMarks = (\<lambda>w. Inr (w\<lparr>wf_KeyVals := []\<rparr>)),
       RenderGlobalVariables =
         (\<lambda>w tid user. Inr (w\<lparr>wf_Params := map (\<lambda>p. p\<lparr>param_Value := user\<rparr>) (wf_Params w)\<rparr>)),
       config_StepGit = ''git'',
       setManunalBuilds = (\<lambda>repos repos'. Inr (map (\<lambda>r. r @ ''@main'') repos)),
       ToJobs = (\<lambda>job w tid. Inr [sampleJobTask job]),
       storeCreate = (\<lambda>t. None),
       task_Now_Unix = 1700000000 \<rparr>"

definition sampleWorkflow :: WorkflowV4 where
  "sampleWorkflow =
     \<lparr> wf_Name = ''wf'',
       wf_KeyVals = [\<lparr>kv_Key = ''IMAGE'', kv_Value = ''<+fixed>foo'', kv_IsCredential = False\<rparr>],
       wf_Params = [\<lparr>param_Name = ''creator'', param_Value = ''${creator}''\<rparr>],
       wf_Stages =
         [\<lparr> ws_Name = ''build'', ws_Parallel = False, ws_Approval = None,
             ws_Jobs =
               [\<lparr> Name = ''compile'', JobType = ''freestyle'', Skipped = False,
                   Spec = FreestyleSpec
                     \<lparr> fs_Properties = [],
                       fs_Steps = [\<lparr> step_Name = ''git'', step_Timeout = 0, step_StepType = ''git'',
                                      step_Spec = GitStepSpec \<lparr>git_Repos = [''zadig'']\<rparr> \<rparr>],
                       fs_Outputs = [] \<rparr> \<rparr>,
                \<lparr> Name = ''lint'', JobType = ''freestyle'', Skipped = True,
                   Spec = RawJobSpec [] \<rparr>] \<rparr>,
          \<lparr> ws_Name = ''deploy'', ws_Parallel = False, ws_Approval = None,
             ws_Jobs =
               [\<lparr> Name = ''rollout'', JobType = ''zadig-deploy'', Skipped = True,
                   Spec = RawJobSpec [] \<rparr>] \<rparr>],
       wf_Project = ''demo'',
       wf_MultiRun = False \<rparr>"

definition failingCounterEnv :: TaskEnv where
  "failingCounterEnv = sampleTaskEnv\<lparr>GetNextSeq := (\<lambda>key. Inl ''counter unavailable'')\<rparr>"

definition failingToJobsEnv :: TaskEnv where
  "failingToJobsEnv = sampleTaskEnv\<lparr>ToJobs := (\<lambda>job w tid. Inl ''unknown job type'')\<rparr>"

definition noJobsEnv :: TaskEnv where
  "noJobsEnv = sampleTaskEnv\<lparr>ToJobs := (\<lambda>job w tid. Inr [])\<rparr>"

definition allSkipped :: "WorkflowV4 \<Rightarrow> WorkflowV4" where
  "allSkipped w =
     w\<lparr>wf_Stages :=
         map (\<lambda>stage. stage\<lparr>ws_Jobs := map (\<lambda>job. job\<lparr>Skipped := True\<rparr>) (ws_Jobs stage)\<rparr>)
           (wf_Stages w)\<rparr>"

definition rawBuildJob :: Job where
  "rawBuildJob = \<lparr> Name = ''image'', JobType = ''zadig-build'', Skipped = False,
                   Spec = RawJobSpec ''{}'' \<rparr>"

definition rawFreestyleJob :: Job where
  "rawFreestyleJob = \<lparr> Name = ''script'', JobType = ''freestyle'', Skipped = False,
                       Spec = RawJobSpec ''{}'' \<rparr>"

definition brokenWorkflow :: WorkflowV4 where
  "brokenWorkflow =
     sampleWorkflow\<lparr>wf_Stages :=
       [\<lparr> ws_Name = ''build'', ws_Parallel = False, ws_Approval = None,
           ws_Jobs = [rawFreestyleJob] \<rparr>]\<rparr>"

definition twoStageWorkflow :: WorkflowV4 where
  "twoStageWorkflow =
     sampleWorkflow\<lparr>wf_Stages :=
       [wf_Stages sampleWorkflow ! 0,
        \<lparr> ws_Name = ''release'', ws_Parallel = False, ws_Approval = None,
           ws_Jobs = [\<lparr> Name = ''publish'', JobType = ''plugin'', Skipped = False,
                        Spec = RawJobSpec ''{}'' \<rparr>,
                      rawFreestyleJob] \<rparr>]\<rparr>"

definition failingPublishEnv :: TaskEnv where
  "failingPublishEnv =
     sampleTaskEnv\<lparr>ToJobs := (\<lambda>job w tid. if Name job = ''publish''
                                            then Inl ''unknown job type''
                                            else Inr [sampleJobTask job])\<rparr>"

definition emptyTask :: WorkflowTask where
  "emptyTask =
     \<lparr> task_TaskID = 7, task_WorkflowName = ''wf'', task_ProjectName = ''demo'',
       task_Params = [], task_KeyVals = [], task_MultiRun = False, task_Status = StatusUnset,
       task_TaskCreator = ''alice'', task_TaskRevoker = ''alice'', task_CreateTime = 0,
       task_Stages = [], task_WorkflowArgs = None, task_OriginWorkflowArgs = None \<rparr>"

definition renderedBy :: "string \<Rightarrow> WorkflowV4 \<Rightarrow> WorkflowV4" where
  "renderedBy user w =
     w\<lparr>wf_KeyVals := [],
       wf_Params := map (\<lambda>p. p\<lparr>param_Value := user\<rparr>) (wf_Params w)\<rparr>"

definition afterFirstStage :: "TaskEnv \<Rightarrow> WorkflowV4 \<times> StageTask list" where
  "afterFirstStage env =
     projr (stagesLoop env 7 [0..<1] (renderedBy ''alice'' twoStageWorkflow, []))"

definition afterFirstJob :: "TaskEnv \<Rightarrow> WorkflowV4 \<times> JobTask list" where
  "afterFirstJob env = projr (jobsLoop env 7 1 [0..<1] (fst (afterFirstStage env), []))"

definition sampleController :: "ApproveCall \<Rightarrow> string option" where
  "sampleController call = (if ac_approve call then None else Some ''stage already rejected'')"

definition sampleListResourceInCache ::
  "string \<Rightarrow> UnstructuredList \<Rightarrow> nat \<Rightarrow> UnstructuredList \<times> string option" where
  "sampleListResourceInCache namespace u cl =
     (u\<lparr>ul_Items := [''ingress/web'', ''ingress/api'']\<rparr>, None)"

section \<open>Properties of the job context builder\<close>

lemma envLoop_eq:
  "envLoop envs (a, b) =
     (a @ map (\<lambda>e. kv_Key e @ ''='' @ kv_Value e) (filter (\<lambda>e. \<not> kv_IsCredential e) envs),
      b @ map (\<lambda>e. kv_Key e @ ''='' @ kv_Value e) (filter kv_IsCredential envs))"
  by (induction envs arbitrary: a b) auto

lemma outputLoop_eq: "outputLoop outs acc = acc @ map out_Name outs"
  by (induction outs arbitrary: acc) auto

text \<open>
  C7: \<open>BuildJobExcutorContext\<close> puts the envs that are not credentials into \<open>envs\<close> and
  the credentials into \<open>secret_envs\<close>, both in their order and each as \<open>KEY=VALUE\<close>;
  \<open>outputs\<close> holds exactly the names of the job's declared outputs; the job's name, the
  steps, the workflow name, the workspace, the task id and the paths are carried unchanged.
\<close>

theorem BuildJobExcutorContext_partition:
  "BuildJobExcutorContext jobTaskSpec job workflowCtx =
     \<lparr> jc_Name = job_Name job,
       jc_Envs = map (\<lambda>e. kv_Key e @ ''='' @ kv_Value e)
                   (filter (\<lambda>e. \<not> kv_IsCredential e) (Envs (Properties jobTaskSpec))),
       jc_SecretEnvs = map (\<lambda>e. kv_Key e @ ''='' @ kv_Value e)
                         (filter kv_IsCredential (Envs (Properties jobTaskSpec))),
       jc_WorkflowName = ctx_WorkflowName workflowCtx,
       jc_Workspace = ctx_Workspace workflowCtx,
       jc_TaskID = ctx_TaskID workflowCtx,
       jc_Outputs = map out_Name (job_Outputs job),
       jc_Steps = Steps jobTaskSpec,
       jc_Paths = Paths (Properties jobTaskSpec) \<rparr>"
  by (simp add: BuildJobExcutorContext_def envLoop_eq outputLoop_eq)

section \<open>Properties of the freestyle job controller\<close>

lemma prepare_noclean: "filter isGoCleanup (fst (snd (prepare env c))) = []"
  by (simp add: prepare_def Let_def split: prod.splits option.splits)

lemma selectCluster_noclean: "filter isGoCleanup (fst (snd (selectCluster env c))) = []"
  by (simp add: selectCluster_def Let_def split: prod.splits sum.splits)

lemma chooseDockerHost_noclean: "filter isGoCleanup (fst (snd (chooseDockerHost env c))) = []"
  by (simp add: chooseDockerHost_def Let_def)

lemma createConfigMap_noclean: "filter isGoCleanup (fst (snd (createConfigMap env c))) = []"
  by (simp add: createConfigMap_def Let_def split: prod.splits sum.splits option.splits)

lemma createWorkload_noclean: "filter isGoCleanup (fst (snd (createWorkload env c))) = []"
  by (simp add: createWorkload_def Let_def split: prod.splits sum.splits option.splits)

lemma andThen_noclean:
  assumes "filter isGoCleanup (fst (snd r)) = []" and "\<And>c. filter isGoCleanup (fst (snd (f c))) = []"
  shows "filter isGoCleanup (fst (snd (andThen r f))) = []"
proof (cases r)
  case (fields c ev res)
  show ?thesis
  proof (cases res)
    case None
    obtain c' ev' r' where f: "f c = (c', ev', r')" by (cases "f c")
    from assms(2)[of c] f have "filter isGoCleanup ev' = []" by simp
    with assms(1) fields None f show ?thesis by (simp add: andThen_def)
  next
    case (Some e)
    with assms(1) fields show ?thesis by (simp add: andThen_def)
  qed
qed

lemma run_noclean: "filter isGoCleanup (fst (snd (run env c))) = []"
  unfolding run_def
  by (intro andThen_noclean selectCluster_noclean chooseDockerHost_noclean createConfigMap_noclean createWorkload_noclean)

lemma wait_noclean: "filter isGoCleanup (snd (wait env c)) = []"
  by (simp add: wait_def Let_def)

lemma complete_clean: "completeRan (snd (complete env c))"
  by (simp add: complete_def completeRan_def Let_def split: prod.splits sum.splits option.splits)

text \<open>
  C1, as the code has it: the \<open>complete\<close> phase runs, and with it the start of the cleanup
  of the job's workload and configmap, exactly when \<open>prepare\<close> and \<open>run\<close> both returned
  no error.  When \<open>prepare\<close> fails, \<open>Run\<close> ends with the effects of \<open>prepare\<close> alone;
  when \<open>run\<close> fails, it ends with the effects of \<open>prepare\<close> and \<open>run\<close>: in both
  cases \<open>wait\<close> and \<open>complete\<close> are skipped.  When both succeed, \<open>Run\<close> is
  \<open>prepare\<close>, \<open>run\<close>, \<open>wait\<close> and \<open>complete\<close> in this order: its final state is
  the state after \<open>complete\<close> and its effects are those of the four phases.
\<close>

theorem Run_complete_iff_no_error:
  "(completeRan (snd (Run env c)) \<longleftrightarrow>
      snd (snd (prepare env c)) = None \<and> snd (snd (run env (fst (prepare env c)))) = None)
   \<and> (snd (snd (prepare env c)) \<noteq> None \<longrightarrow>
        Run env c = (fst (prepare env c), fst (snd (prepare env c))))
   \<and> (snd (snd (prepare env c)) = None \<and> snd (snd (run env (fst (prepare env c)))) \<noteq> None \<longrightarrow>
        Run env c = (fst (run env (fst (prepare env c))),
                     fst (snd (prepare env c)) @ fst (snd (run env (fst (prepare env c))))))
   \<and> (snd (snd (prepare env c)) = None \<and> snd (snd (run env (fst (prepare env c)))) = None \<longrightarrow>
        Run env c =
          (fst (complete env (fst (wait env (fst (run env (fst (prepare env c))))))),
           fst (snd (prepare env c)) @ fst (snd (run env (fst (prepare env c))))
           @ snd (wait env (fst (run env (fst (prepare env c)))))
           @ snd (complete env (fst (wait env (fst (run env (fst (prepare env c)))))))))"
proof -
  obtain c1 ev1 r1 where p: "prepare env c = (c1, ev1, r1)" by (cases "prepare env c")
  obtain c2 ev2 r2 where r: "run env c1 = (c2, ev2, r2)" by (cases "run env c1")
  obtain c3 ev3 where w: "wait env c2 = (c3, ev3)" by (cases "wait env c2")
  obtain c4 ev4 where k: "complete env c3 = (c4, ev4)" by (cases "complete env c3")
  have n1: "filter isGoCleanup ev1 = []" using prepare_noclean[of env c] p by simp
  have n2: "filter isGoCleanup ev2 = []" using run_noclean[of env c1] r by simp
  have n4: "filter isGoCleanup ev4 \<noteq> []" using complete_clean[of env c3] k by (simp add: completeRan_def)
  show ?thesis
    using p r w k n1 n2 n4
    by (cases r1; cases r2) (simp_all add: Run_def completeRan_def)
qed

theorem Run_complete_iff_no_error_witness:
  "completeRan (snd (Run sampleEnv sampleCtl))
   \<and> snd (Run failingPrepareEnv sampleCtl) = [CallPrepareSteps, LogError ''prepare step git failed'']
   \<and> \<not> completeRan (snd (Run failingCreateJobEnv sampleCtl))
   \<and> CallWaitJobEnd \<in> set (snd (Run sampleEnv sampleCtl))
   \<and> CallGetJobOutput \<in> set (snd (Run sampleEnv sampleCtl))
   \<and> CallSummarizeSteps \<in> set (snd (Run sampleEnv sampleCtl))
   \<and> job_Status (c_job (fst (Run sampleEnv sampleCtl))) = StatusPassed"
proof -
  have a: "snd (snd (prepare sampleEnv sampleCtl)) = None
           \<and> snd (snd (run sampleEnv (fst (prepare sampleEnv sampleCtl)))) = None"
    by code_simp
  have b: "snd (snd (prepare failingPrepareEnv sampleCtl)) \<noteq> None
           \<and> fst (snd (prepare failingPrepareEnv sampleCtl)) = [CallPrepareSteps, LogError ''prepare step git failed'']"
    by code_simp
  have c: "snd (snd (prepare failingCreateJobEnv sampleCtl)) = None
           \<and> snd (snd (run failingCreateJobEnv (fst (prepare failingCreateJobEnv sampleCtl)))) \<noteq> None"
    by code_simp
  have 1: "completeRan (snd (Run sampleEnv sampleCtl))"
    using Run_complete_iff_no_error [of sampleEnv sampleCtl, THEN conjunct1] a by blast
  have 2: "snd (Run failingPrepareEnv sampleCtl) = [CallPrepareSteps, LogError ''prepare step git failed'']"
    using Run_complete_iff_no_error [of failingPrepareEnv sampleCtl, THEN conjunct2, THEN conjunct1] b by simp
  have 3: "\<not> completeRan (snd (Run failingCreateJobEnv sampleCtl))"
    using Run_complete_iff_no_error [of failingCreateJobEnv sampleCtl, THEN conjunct1] c by blast
  have eq: "Run sampleEnv sampleCtl =
          (fst (complete sampleEnv (fst (wait sampleEnv (fst (run sampleEnv (fst (prepare sampleEnv sampleCtl))))))),
           fst (snd (prepare sampleEnv sampleCtl)) @ fst (snd (run sampleEnv (fst (prepare sampleEnv sampleCtl))))
           @ snd (wait sampleEnv (fst (run sampleEnv (fst (prepare sampleEnv sampleCtl)))))
           @ snd (complete sampleEnv (fst (wait sampleEnv (fst (run sampleEnv (fst (prepare sampleEnv sampleCtl))))))))"
    using Run_complete_iff_no_error [of sampleEnv sampleCtl, THEN conjunct2, THEN conjunct2,
        THEN conjunct2, THEN mp, OF a] .
  have m: "CallWaitJobEnd \<in> set (fst (snd (prepare sampleEnv sampleCtl)) @ fst (snd (run sampleEnv (fst (prepare sampleEnv sampleCtl))))
           @ snd (wait sampleEnv (fst (run sampleEnv (fst (prepare sampleEnv sampleCtl)))))
           @ snd (complete sampleEnv (fst (wait sampleEnv (fst (run sampleEnv (fst (prepare sampleEnv sampleCtl))))))))
     \<and> CallGetJobOutput \<in> set (fst (snd (prepare sampleEnv sampleCtl)) @ fst (snd (run sampleEnv (fst (prepare sampleEnv sampleCtl))))
           @ snd (wait sampleEnv (fst (run sampleEnv (fst (prepare sampleEnv sampleCtl)))))
           @ snd (complete sampleEnv (fst (wait sampleEnv (fst (run sampleEnv (fst (prepare sampleEnv sampleCtl))))))))
     \<and> CallSummarizeSteps \<in> set (fst (snd (prepare sampleEnv sampleCtl)) @ fst (snd (run sampleEnv (fst (prepare sampleEnv sampleCtl))))
           @ snd (wait sampleEnv (fst (run sampleEnv (fst (prepare sampleEnv sampleCtl)))))
           @ snd (complete sampleEnv (fst (wait sampleEnv (fst (run sampleEnv (fst (prepare sampleEnv sampleCtl))))))))
     \<and> job_Status (c_job (fst (complete sampleEnv (fst (wait sampleEnv (fst (run sampleEnv (fst (prepare sampleEnv sampleCtl))))))))) = StatusPassed"
    by code_simp
  have 4: "CallWaitJobEnd \<in> set (snd (Run sampleEnv sampleCtl))
     \<and> CallGetJobOutput \<in> set (snd (Run sampleEnv sampleCtl))
     \<and> CallSummarizeSteps \<in> set (snd (Run sampleEnv sampleCtl))
     \<and> job_Status (c_job (fst (Run sampleEnv sampleCtl))) = StatusPassed"
    using m by (simp only: eq fst_conv snd_conv)
  show ?thesis using 1 2 3 4 by blast
qed

text \<open>
  C1 as stated fails: with a failing step preparation, and with a workload creation that
  fails after the configmap was created, \<open>Run\<close> returns without running \<open>complete\<close>.
\<close>

theorem Run_error_skips_complete:
  "snd (snd (prepare failingPrepareEnv sampleCtl)) = Some ''prepare step git failed''
   \<and> \<not> completeRan (snd (Run failingPrepareEnv sampleCtl))
   \<and> snd (snd (run failingCreateJobEnv (fst (prepare failingCreateJobEnv sampleCtl)))) = Some ''create job error: quota exceeded''
   \<and> \<not> completeRan (snd (Run failingCreateJobEnv sampleCtl))"
  by code_simp

text \<open>
  C2: on the local cluster a docker host that lacks the namespace is given it, but a docker
  host that already contains the namespace is replaced by the empty string instead of being
  kept, also as the \<open>run\<close> phase stores it; a second pass over the rewritten host
  therefore erases it.
\<close>

theorem rewriteDockerHost_local_erases_host:
  "rewriteDockerHost sampleEnv (LocalClusterID sampleEnv) ''tcp://dind-0.dind:2375''
     = ''tcp://dind-0.dind.zadig:2375''
   \<and> rewriteDockerHost sampleEnv (LocalClusterID sampleEnv) ''tcp://dind-0.dind.zadig:2375'' = []
   \<and> snd (snd (run namespacedHostEnv (fst (prepare namespacedHostEnv sampleCtl)))) = None
   \<and> DockerHost (Properties (c_jobTaskSpec
         (fst (run namespacedHostEnv (fst (prepare namespacedHostEnv sampleCtl)))))) = []"
  by code_simp

lemma writeOutputs_eq:
  "writeOutputs name outputs (wctx, evs) =
     (wctx\<lparr>ctx_GlobalContext := ctx_GlobalContext wctx ++
         map_of (rev (map (\<lambda>output. (''workflow.'' @ name @ ''.'' @ jo_Name output, jo_Value output)) outputs))\<rparr>,
      evs @ map (\<lambda>output. CallGlobalContextSet (''workflow.'' @ name @ ''.'' @ jo_Name output) (jo_Value output)) outputs)"
proof (induction outputs arbitrary: wctx evs)
  case Nil
  show ?case by simp
next
  case (Cons x rest)
  show ?case
    apply (simp add: Cons.IH GlobalContextSet_def Let_def)
    apply (simp add: map_add_def fun_eq_iff split: option.splits)
    done
qed

lemma filter_ctxset_map: "filter isContextSet (map (\<lambda>output. CallGlobalContextSet (f output) (g output)) outputs) = map (\<lambda>output. CallGlobalContextSet (f output) (g output)) outputs"
  by (induction outputs) auto

text \<open>
  C3, as the code has it: \<open>complete\<close> invokes \<open>SummarizeSteps\<close> exactly when shipping the
  container logs succeeded.  A failure to ship them is logged and stored as the job's
  error, ends the phase before the summarization, leaves the job's status as it was, and
  the cleanup is still started as the last effect.
\<close>

theorem complete_log_failure_skips_summary:
  "(CallSummarizeSteps \<in> set (snd (complete env c)) \<longleftrightarrow>
      saveContainerLog env (Namespace (Properties (c_jobTaskSpec c))) (ClusterID (Properties (c_jobTaskSpec c)))
        (ctx_WorkflowName (c_workflowCtx c)) (job_Name (c_job c)) (ctx_TaskID (c_workflowCtx c))
        (mkJobLabel c) (c_kubeclient c) = None)
   \<and> (\<forall>e. saveContainerLog env (Namespace (Properties (c_jobTaskSpec c))) (ClusterID (Properties (c_jobTaskSpec c)))
        (ctx_WorkflowName (c_workflowCtx c)) (job_Name (c_job c)) (ctx_TaskID (c_workflowCtx c))
        (mkJobLabel c) (c_kubeclient c) = Some e \<longrightarrow>
        LogError e \<in> set (snd (complete env c))
        \<and> job_Error (c_job (fst (complete env c))) = e
        \<and> job_Status (c_job (fst (complete env c))) = job_Status (c_job c)
        \<and> last (snd (complete env c)) = GoCleanup (mkJobLabel c))"
  by (auto simp add: complete_def Let_def writeOutputs_eq setProperties_def split: prod.splits option.splits)

theorem complete_log_failure_skips_summary_witness:
  "saveContainerLog failingLogEnv (Namespace (Properties (c_jobTaskSpec sampleCtl)))
      (ClusterID (Properties (c_jobTaskSpec sampleCtl))) (ctx_WorkflowName (c_workflowCtx sampleCtl))
      (job_Name (c_job sampleCtl)) (ctx_TaskID (c_workflowCtx sampleCtl)) (mkJobLabel sampleCtl)
      (c_kubeclient sampleCtl) = Some ''log store unreachable''
   \<and> CallSummarizeSteps \<notin> set (snd (complete failingLogEnv sampleCtl))
   \<and> LogError ''log store unreachable'' \<in> set (snd (complete failingLogEnv sampleCtl))
   \<and> job_Error (c_job (fst (complete failingLogEnv sampleCtl))) = ''log store unreachable''
   \<and> job_Status (c_job (fst (complete failingLogEnv sampleCtl))) = StatusRunning
   \<and> CallSummarizeSteps \<in> set (snd (complete sampleEnv sampleCtl))"
proof -
  have a: "saveContainerLog failingLogEnv (Namespace (Properties (c_jobTaskSpec sampleCtl)))
      (ClusterID (Properties (c_jobTaskSpec sampleCtl))) (ctx_WorkflowName (c_workflowCtx sampleCtl))
      (job_Name (c_job sampleCtl)) (ctx_TaskID (c_workflowCtx sampleCtl)) (mkJobLabel sampleCtl)
      (c_kubeclient sampleCtl) = Some ''log store unreachable''"
    by (simp add: failingLogEnv_def)
  have b: "saveContainerLog sampleEnv (Namespace (Properties (c_jobTaskSpec sampleCtl)))
      (ClusterID (Properties (c_jobTaskSpec sampleCtl))) (ctx_WorkflowName (c_workflowCtx sampleCtl))
      (job_Name (c_job sampleCtl)) (ctx_TaskID (c_workflowCtx sampleCtl)) (mkJobLabel sampleCtl)
      (c_kubeclient sampleCtl) = None"
    by (simp add: sampleEnv_def)
  have c: "job_Status (c_job sampleCtl) = StatusRunning" by (simp add: sampleCtl_def)
  show ?thesis
    using complete_log_failure_skips_summary [of failingLogEnv sampleCtl] complete_log_failure_skips_summary [of sampleEnv sampleCtl] a b c by simp
qed

text \<open>
  C3 as stated fails: when the log store rejects the logs, \<open>complete\<close> has tried to ship
  them and does not invoke \<open>SummarizeSteps\<close>.
\<close>

theorem complete_log_failure_counterexample:
  "CallSummarizeSteps \<notin> set (snd (complete failingLogEnv sampleCtl))
   \<and> CallSaveContainerLog \<in> set (snd (complete failingLogEnv sampleCtl))"
  by code_simp

lemma distinct_keys:
  "distinct (map jo_Name outputs) \<Longrightarrow>
   distinct (map fst (map (\<lambda>x. (p @ jo_Name x, jo_Value x)) outputs))"
  by (simp add: distinct_map comp_def inj_on_def)

text \<open>
  C6: the writes that \<open>complete\<close> makes into the variable context are, in order, one per
  output parsed from the termination message, each with the key
  \<open>workflow.<job name>.<output name>\<close> and the output's value; the context after the phase
  is the context before it overridden by these writes (a later write wins); and when the
  output names are distinct, every output's key maps to its value.
\<close>

theorem complete_output_keys:
  "filter isContextSet (snd (complete env c)) =
     map (\<lambda>x. CallGlobalContextSet (''workflow.'' @ job_Name (c_job c) @ ''.'' @ jo_Name x) (jo_Value x))
       (fst (getJobOutput env (Namespace (Properties (c_jobTaskSpec c))) (job_Name (c_job c)) (mkJobLabel c) (c_kubeclient c)))
   \<and> ctx_GlobalContext (c_workflowCtx (fst (complete env c))) =
       ctx_GlobalContext (c_workflowCtx c) ++
       map_of (rev (map (\<lambda>x. (''workflow.'' @ job_Name (c_job c) @ ''.'' @ jo_Name x, jo_Value x))
         (fst (getJobOutput env (Namespace (Properties (c_jobTaskSpec c))) (job_Name (c_job c)) (mkJobLabel c) (c_kubeclient c)))))
   \<and> (distinct (map jo_Name (fst (getJobOutput env (Namespace (Properties (c_jobTaskSpec c))) (job_Name (c_job c)) (mkJobLabel c) (c_kubeclient c)))) \<longrightarrow>
       (\<forall>x \<in> set (fst (getJobOutput env (Namespace (Properties (c_jobTaskSpec c))) (job_Name (c_job c)) (mkJobLabel c) (c_kubeclient c))).
          ctx_GlobalContext (c_workflowCtx (fst (complete env c)))
            (''workflow.'' @ job_Name (c_job c) @ ''.'' @ jo_Name x) = Some (jo_Value x)))"
proof -
  define outs where "outs = fst (getJobOutput env (Namespace (Properties (c_jobTaskSpec c))) (job_Name (c_job c)) (mkJobLabel c) (c_kubeclient c))"
  define kvs where "kvs = map (\<lambda>x. (''workflow.'' @ job_Name (c_job c) @ ''.'' @ jo_Name x, jo_Value x)) outs"
  have ctx: "ctx_GlobalContext (c_workflowCtx (fst (complete env c))) = ctx_GlobalContext (c_workflowCtx c) ++ map_of (rev kvs)"
    unfolding kvs_def outs_def
    by (simp add: complete_def Let_def writeOutputs_eq setProperties_def split: prod.splits option.splits)
  have evs: "filter isContextSet (snd (complete env c)) =
     map (\<lambda>x. CallGlobalContextSet (''workflow.'' @ job_Name (c_job c) @ ''.'' @ jo_Name x) (jo_Value x)) outs"
    unfolding outs_def
    by (simp add: complete_def Let_def writeOutputs_eq filter_ctxset_map split: prod.splits option.splits)
  have look: "ctx_GlobalContext (c_workflowCtx (fst (complete env c)))
            (''workflow.'' @ job_Name (c_job c) @ ''.'' @ jo_Name x) = Some (jo_Value x)"
    if d: "distinct (map jo_Name outs)" and x: "x \<in> set outs" for x
  proof -
    have dk: "distinct (map fst (rev kvs))"
      using distinct_keys[OF d, of "''workflow.'' @ job_Name (c_job c) @ ''.''"] by (simp add: kvs_def rev_map[symmetric] del: map_map)
    have "(''workflow.'' @ job_Name (c_job c) @ ''.'' @ jo_Name x, jo_Value x) \<in> set (rev kvs)"
      using x by (auto simp add: kvs_def)
    then have "map_of (rev kvs) (''workflow.'' @ job_Name (c_job c) @ ''.'' @ jo_Name x) = Some (jo_Value x)"
      using dk by (simp only: map_of_eq_Some_iff)
    then show ?thesis by (simp add: ctx map_add_def)
  qed
  show ?thesis using ctx evs look unfolding kvs_def outs_def by blast
qed

theorem complete_output_keys_witness:
  "distinct (map jo_Name (fst (getJobOutput sampleEnv (Namespace (Properties (c_jobTaskSpec sampleCtl)))
       (job_Name (c_job sampleCtl)) (mkJobLabel sampleCtl) (c_kubeclient sampleCtl))))
   \<and> ctx_GlobalContext (c_workflowCtx (fst (complete sampleEnv sampleCtl))) ''workflow.build.VERSION'' = Some ''1.2.3''"
proof -
  have o: "\<And>ns name l cl. getJobOutput sampleEnv ns name l cl
       = ([\<lparr>jo_Name = ''VERSION'', jo_Value = ''1.2.3''\<rparr>], None)"
    by (simp add: sampleEnv_def)
  have n: "job_Name (c_job sampleCtl) = ''build''" by (simp add: sampleCtl_def)
  show ?thesis using complete_output_keys [of sampleEnv sampleCtl] by (simp add: o n)
qed

section \<open>Properties of task materialization\<close>

lemma setZadigBuildRepos_Skipped: "setZadigBuildRepos env job = Inr job' \<Longrightarrow> Skipped job' = Skipped job \<and> JobType job' = JobType job"
  by (auto simp add: setZadigBuildRepos_def split: sum.splits)

lemma setFreeStyleRepos_Skipped: "setFreeStyleRepos env job = Inr job' \<Longrightarrow> Skipped job' = Skipped job"
  by (auto simp add: setFreeStyleRepos_def split: sum.splits)

lemma prepareJob_Skipped: "prepareJob env job = Inr job' \<Longrightarrow> Skipped job' = Skipped job"
  by (auto simp add: prepareJob_def split: sum.splits if_splits
      dest: setZadigBuildRepos_Skipped setFreeStyleRepos_Skipped)

lemma prepareJob_err: "prepareJob env job = Inl e \<Longrightarrow> \<exists>d. e = AddDesc ErrCreateTask d"
  by (auto simp add: prepareJob_def split: sum.splits if_splits)

lemma Skipped_setJobAt:
  "Skipped job' = Skipped (jobAt w i j) \<Longrightarrow> Skipped (jobAt (setJobAt w i j job') i j') = Skipped (jobAt w i j')"
proof (cases "i < length (wf_Stages w)")
  case False
  assume "Skipped job' = Skipped (jobAt w i j)"
  from False show ?thesis by (simp add: jobAt_def setJobAt_def list_update_beyond)
next
  case True
  assume s: "Skipped job' = Skipped (jobAt w i j)"
  show ?thesis
  proof (cases "j < length (ws_Jobs (wf_Stages w ! i))")
    case False
    with True show ?thesis by (simp add: jobAt_def setJobAt_def list_update_beyond)
  next
    case jl: True
    show ?thesis
    proof (cases "j' = j")
      case True
      with \<open>i < length (wf_Stages w)\<close> jl s show ?thesis by (simp add: jobAt_def setJobAt_def)
    next
      case False
      with \<open>i < length (wf_Stages w)\<close> jl show ?thesis by (simp add: jobAt_def setJobAt_def)
    qed
  qed
qed

lemma jobsLoop_skip:
  "jobsLoop env tid i js (w, acc) = jobsLoop env tid i (filter (\<lambda>j. \<not> Skipped (jobAt w i j)) js) (w, acc)"
proof (induction js arbitrary: w acc)
  case Nil
  show ?case by simp
next
  case (Cons j js)
  show ?case
  proof (cases "Skipped (jobAt w i j)")
    case True
    then show ?thesis using Cons.IH[of w acc] by simp
  next
    case False
    show ?thesis
    proof (cases "prepareJob env (jobAt w i j)")
      case (Inl e)
      with False show ?thesis by simp
    next
      case (Inr job')
      have sk: "Skipped job' = Skipped (jobAt w i j)" using prepareJob_Skipped[OF Inr] .
      have f: "filter (\<lambda>j'. \<not> Skipped (jobAt (setJobAt w i j job') i j')) js = filter (\<lambda>j'. \<not> Skipped (jobAt w i j')) js"
        using Skipped_setJobAt[OF sk] by simp
      show ?thesis
      proof (cases "ToJobs env job' (setJobAt w i j job') tid")
        case (Inl err)
        with False Inr show ?thesis by simp
      next
        case r: (Inr jobs)
        from False Inr r Cons.IH[of "setJobAt w i j job'" "acc @ jobs"] f show ?thesis by simp
      qed
    qed
  qed
qed

lemma jobsLoop_err: "jobsLoop env tid i js st = Inl e \<Longrightarrow> \<exists>d. e = AddDesc ErrCreateTask d"
proof (induction env tid i js st rule: jobsLoop.induct)
  case (1 env tid i st)
  then show ?case by simp
next
  case (2 env tid i j js w acc)
  then show ?case
    by (auto simp add: Let_def split: if_splits sum.splits dest: prepareJob_err)
qed

lemma stagesLoop_err: "stagesLoop env tid is st = Inl e \<Longrightarrow> \<exists>d. e = AddDesc ErrCreateTask d"
proof (induction env tid "is" st rule: stagesLoop.induct)
  case (1 env tid st)
  then show ?case by simp
next
  case (2 env tid i "is" w stages)
  then show ?case
    by (auto simp add: Let_def split: if_splits sum.splits prod.splits dest: jobsLoop_err)
qed

lemma jobsLoop_all_skipped:
  assumes "\<forall>job \<in> set (ws_Jobs (wf_Stages w ! i)). Skipped job"
  shows "jobsLoop env tid i [0..<length (ws_Jobs (wf_Stages w ! i))] (w, acc) = Inr (w, acc)"
proof -
  have "filter (\<lambda>j. \<not> Skipped (jobAt w i j)) [0..<length (ws_Jobs (wf_Stages w ! i))] = []"
    using assms by (auto simp add: jobAt_def filter_empty_conv)
  then show ?thesis using jobsLoop_skip[of env tid i "[0..<length (ws_Jobs (wf_Stages w ! i))]" w acc] by simp
qed

lemma stagesLoop_skip_stage:
  assumes "\<forall>job \<in> set (ws_Jobs (wf_Stages w ! i)). Skipped job"
  shows "stagesLoop env tid (i # is) (w, stages) = stagesLoop env tid is (w, stages)"
  using jobsLoop_all_skipped[OF assms, of env tid "[]"] by (simp add: Let_def)

lemma stagesLoop_all_skipped:
  assumes "\<forall>i \<in> set is. \<forall>job \<in> set (ws_Jobs (wf_Stages w ! i)). Skipped job"
  shows "stagesLoop env tid is (w, stages) = Inr (w, stages)"
  using assms
proof (induction "is")
  case Nil
  show ?case by simp
next
  case (Cons i "is")
  then show ?case using stagesLoop_skip_stage[of w i env tid "is" stages] by simp
qed

lemma lintStages_None: "lintStages n t stages = None \<longleftrightarrow> (\<forall>s \<in> set stages. stage_Jobs s \<noteq> [])"
  by (induction stages) auto

lemma lintStages_err: "lintStages n t stages = Some e \<Longrightarrow> \<exists>d. e = AddDesc ErrCreateTask d"
  by (induction stages) (auto split: if_splits)

lemma workflowTaskLint_None:
  "workflowTaskLint t = None \<longleftrightarrow> task_Stages t \<noteq> [] \<and> (\<forall>s \<in> set (task_Stages t). stage_Jobs s \<noteq> [])"
  by (auto simp add: workflowTaskLint_def lintStages_None)

lemma workflowTaskLint_err: "workflowTaskLint t = Some e \<Longrightarrow> \<exists>d. e = AddDesc ErrCreateTask d"
  by (auto simp add: workflowTaskLint_def split: if_splits dest: lintStages_err)

lemma stagesLoop_nonempty:
  "stagesLoop env tid is (w, stages) = Inr (w', stages') \<Longrightarrow>
   (\<forall>s \<in> set stages. stage_Jobs s \<noteq> []) \<Longrightarrow> (\<forall>s \<in> set stages'. stage_Jobs s \<noteq> [])"
proof (induction "is" arbitrary: w stages)
  case Nil
  then show ?case by simp
next
  case (Cons i "is")
  from Cons.prems(1) obtain w1 stageJobs where
    j: "jobsLoop env tid i [0..<length (ws_Jobs (wf_Stages w ! i))] (w, []) = Inr (w1, stageJobs)"
    by (auto simp add: Let_def split: sum.splits)
  show ?case
  proof (cases "stageJobs = []")
    case True
    with j Cons.prems(1) have "stagesLoop env tid is (w1, stages) = Inr (w', stages')"
      by (simp add: Let_def)
    from Cons.IH[OF this Cons.prems(2)] show ?thesis .
  next
    case False
    let ?st = "\<lparr> stage_Name = ws_Name (wf_Stages w ! i), stage_Parallel = ws_Parallel (wf_Stages w ! i),
                 stage_Approval = ws_Approval (wf_Stages w ! i), stage_Jobs = stageJobs \<rparr>"
    from False j Cons.prems(1) have r: "stagesLoop env tid is (w1, stages @ [?st]) = Inr (w', stages')"
      by (simp add: Let_def)
    have "\<forall>s \<in> set (stages @ [?st]). stage_Jobs s \<noteq> []" using Cons.prems(2) False by simp
    from Cons.IH[OF r this] show ?thesis .
  qed
qed

lemma all_skipped_indices:
  "(\<forall>stage \<in> set (wf_Stages w). \<forall>job \<in> set (ws_Jobs stage). Skipped job) \<Longrightarrow>
   \<forall>i \<in> set [0..<length (wf_Stages w)]. \<forall>job \<in> set (ws_Jobs (wf_Stages w ! i)). Skipped job"
proof
  fix i
  assume a: "\<forall>stage \<in> set (wf_Stages w). \<forall>job \<in> set (ws_Jobs stage). Skipped job"
    and "i \<in> set [0..<length (wf_Stages w)]"
  then have "wf_Stages w ! i \<in> set (wf_Stages w)" by simp
  with a show "\<forall>job \<in> set (ws_Jobs (wf_Stages w ! i)). Skipped job" by blast
qed

lemma CreateWorkflowTaskV4_success:
  "snd (fst (CreateWorkflowTaskV4 env user workflow store)) = None \<Longrightarrow>
   \<exists>task. snd (CreateWorkflowTaskV4 env user workflow store) (task_WorkflowName task, task_TaskID task) = Some task
     \<and> workflowTaskLint (task\<lparr>task_WorkflowArgs := None, task_Status := StatusUnset\<rparr>) = None"
  by (auto simp add: CreateWorkflowTaskV4_def Let_def CreateTask_def
      split: option.splits sum.splits prod.splits)

lemma no_empty_jobs: "\<forall>s \<in> set xs. stage_Jobs s \<noteq> [] \<Longrightarrow> [] \<notin> set (map stage_Jobs xs)"
  by auto

lemma jobsLoop_append:
  "jobsLoop env tid i (xs @ ys) st =
     (case jobsLoop env tid i xs st of Inl e \<Rightarrow> Inl e | Inr st' \<Rightarrow> jobsLoop env tid i ys st')"
  by (induction env tid i xs st rule: jobsLoop.induct)
     (simp_all add: Let_def split: sum.splits)

lemma stagesLoop_append:
  "stagesLoop env tid (xs @ ys) st =
     (case stagesLoop env tid xs st of Inl e \<Rightarrow> Inl e | Inr st' \<Rightarrow> stagesLoop env tid ys st')"
  by (induction env tid xs st rule: stagesLoop.induct)
     (simp_all add: Let_def split: sum.splits prod.splits)

lemma upt_split_at: "i < n \<Longrightarrow> [0..<n] = [0..<i] @ i # [Suc i..<n]"
  using upt_add_eq_append [of 0 i "n - i"] upt_conv_Cons [of i n] by simp

lemma jobsLoop_fails_at:
  assumes "j < n"
    and "jobsLoop env tid i [0..<j] st = Inr st'"
    and "jobsLoop env tid i [j] st' = Inl e"
  shows "jobsLoop env tid i [0..<n] st = Inl e"
proof -
  have "jobsLoop env tid i (j # [Suc j..<n]) st' = Inl e"
    using assms(3) jobsLoop_append [of env tid i "[j]" "[Suc j..<n]" st'] by simp
  then show ?thesis
    using assms(1,2) jobsLoop_append [of env tid i "[0..<j]" "j # [Suc j..<n]" st]
    by (simp add: upt_split_at [OF assms(1)])
qed

lemma stagesLoop_fails_at:
  assumes "i < n"
    and "stagesLoop env tid [0..<i] st = Inr (w1, stages1)"
    and "jobsLoop env tid i [0..<length (ws_Jobs (wf_Stages w1 ! i))] (w1, []) = Inl e"
  shows "stagesLoop env tid [0..<n] st = Inl e"
proof -
  have "stagesLoop env tid (i # [Suc i..<n]) (w1, stages1) = Inl e"
    using assms(3) by (simp add: Let_def)
  then show ?thesis
    using assms(2) stagesLoop_append [of env tid "[0..<i]" "i # [Suc i..<n]" st]
    by (simp add: upt_split_at [OF assms(1)])
qed


lemma CreateWorkflowTaskV4_job_fails:
  assumes "LintWorkflowV4 env workflow = None"
    and "IToi_WorkflowV4 env workflow = Inr originTaskArgs"
    and "GetNextSeq env (WorkflowTaskV4Fmt env (wf_Name workflow)) = Inr nextTaskID"
    and "RemoveFixedValueMarks env workflow = Inr workflow1"
    and "RenderGlobalVariables env workflow1 nextTaskID user = Inr workflow2"
    and "i < length (wf_Stages workflow2)"
    and "stagesLoop env nextTaskID [0..<i] (workflow2, []) = Inr (w1, stages1)"
    and "j < length (ws_Jobs (wf_Stages w1 ! i))"
    and "jobsLoop env nextTaskID i [0..<j] (w1, []) = Inr (w2, jobs1)"
    and "jobsLoop env nextTaskID i [j] (w2, jobs1) = Inl e"
  shows "CreateWorkflowTaskV4 env user workflow store =
        ((\<lparr> resp_ProjectName = wf_Project workflow, resp_WorkflowName = wf_Name workflow,
            resp_TaskID = nextTaskID \<rparr>, Some e), store)"
proof -
  have "jobsLoop env nextTaskID i [0..<length (ws_Jobs (wf_Stages w1 ! i))] (w1, []) = Inl e"
    using jobsLoop_fails_at [OF assms(8) assms(9) assms(10)] .
  then have "stagesLoop env nextTaskID [0..<length (wf_Stages workflow2)] (workflow2, []) = Inl e"
    using stagesLoop_fails_at [OF assms(6) assms(7)] by blast
  with assms(1-5) show ?thesis by (simp add: CreateWorkflowTaskV4_def)
qed

lemma sample_steps:
  "LintWorkflowV4 sampleTaskEnv w = None"
  "IToi_WorkflowV4 sampleTaskEnv w = Inr w"
  "GetNextSeq sampleTaskEnv key = Inr 7"
  "RemoveFixedValueMarks sampleTaskEnv w = Inr (w\<lparr>wf_KeyVals := []\<rparr>)"
  "RenderGlobalVariables sampleTaskEnv (w\<lparr>wf_KeyVals := []\<rparr>) 7 user = Inr (renderedBy user w)"
  by (simp_all add: sampleTaskEnv_def renderedBy_def)

text \<open>
  C4: when \<open>CreateWorkflowTaskV4\<close> succeeds, the store holds the task under its workflow
  name and the task id of the response, and the task's origin arguments are the copy that
  \<open>IToi\<close> made of the workflow as it was handed in, that is before marker removal and
  rendering; whatever those steps, the repository lookups and the job conversion do to the
  workflow afterwards does not reach the copy.  \<open>CloneWorkflowTaskV4\<close> for that name and
  id returns exactly this copy.
\<close>

theorem CreateWorkflowTaskV4_origin_args:
  "snd (fst (CreateWorkflowTaskV4 env user workflow store)) = None \<Longrightarrow>
   \<exists>originTaskArgs task.
       IToi_WorkflowV4 env workflow = Inr originTaskArgs
     \<and> snd (CreateWorkflowTaskV4 env user workflow store) (task_WorkflowName task, task_TaskID task) = Some task
     \<and> task_TaskID task = resp_TaskID (fst (fst (CreateWorkflowTaskV4 env user workflow store)))
     \<and> task_OriginWorkflowArgs task = Some originTaskArgs
     \<and> CloneWorkflowTaskV4 (snd (CreateWorkflowTaskV4 env user workflow store))
           (task_WorkflowName task) (task_TaskID task) = (Some originTaskArgs, None)"
  by (auto simp add: CreateWorkflowTaskV4_def Let_def CreateTask_def CloneWorkflowTaskV4_def Find_def
      split: option.splits sum.splits prod.splits)

theorem CreateWorkflowTaskV4_origin_args_witness:
  "snd (fst (CreateWorkflowTaskV4 sampleTaskEnv ''alice'' sampleWorkflow Map.empty)) = None
   \<and> (\<exists>task. snd (CreateWorkflowTaskV4 sampleTaskEnv ''alice'' sampleWorkflow Map.empty)
                 (task_WorkflowName task, task_TaskID task) = Some task
          \<and> task_TaskID task = 7
          \<and> task_OriginWorkflowArgs task = Some sampleWorkflow
          \<and> CloneWorkflowTaskV4 (snd (CreateWorkflowTaskV4 sampleTaskEnv ''alice'' sampleWorkflow Map.empty))
                (task_WorkflowName task) (task_TaskID task) = (Some sampleWorkflow, None))"
proof -
  have h: "snd (fst (CreateWorkflowTaskV4 sampleTaskEnv ''alice'' sampleWorkflow Map.empty)) = None"
    by code_simp
  have r: "resp_TaskID (fst (fst (CreateWorkflowTaskV4 sampleTaskEnv ''alice'' sampleWorkflow Map.empty))) = 7"
    by code_simp
  show ?thesis
    using CreateWorkflowTaskV4_origin_args [OF h] h r by (auto simp add: sample_steps)
qed

text \<open>
  C5: the job loop over a stage behaves as the loop over its jobs that are not skipped, so
  a skipped job is neither prepared nor converted; a stage whose jobs are all skipped adds
  no stage task, and no stage task that the stage loop produces has an empty job list;
  \<open>workflowTaskLint\<close> accepts a task exactly when it has a stage and every stage has a
  job, and its error is an \<open>ErrCreateTask\<close>; a task that was persisted has a stage and a
  job in every stage; a workflow whose jobs are all skipped yields no stage task; and
  when the stage loop yields no stage task, the call fails with \<open>ErrCreateTask\<close> and the
  store is left as it was.
\<close>

theorem materialization_drops_skipped_and_lints:
  "jobsLoop env tid i js (w, acc) =
     jobsLoop env tid i (filter (\<lambda>j. \<not> Skipped (jobAt w i j)) js) (w, acc)
   \<and> ((\<forall>job \<in> set (ws_Jobs (wf_Stages w ! i)). Skipped job) \<longrightarrow>
        stagesLoop env tid (i # rest) (w, stages) = stagesLoop env tid rest (w, stages))
   \<and> (\<forall>w' stages'. stagesLoop env tid rest (w, []) = Inr (w', stages') \<longrightarrow>
        (\<forall>s \<in> set stages'. stage_Jobs s \<noteq> []))
   \<and> (workflowTaskLint t = None \<longleftrightarrow>
        task_Stages t \<noteq> [] \<and> (\<forall>s \<in> set (task_Stages t). stage_Jobs s \<noteq> []))
   \<and> (\<forall>e. workflowTaskLint t = Some e \<longrightarrow> (\<exists>d. e = AddDesc ErrCreateTask d))
   \<and> (snd (fst (CreateWorkflowTaskV4 env user workflow store)) = None \<longrightarrow>
        (\<exists>task. snd (CreateWorkflowTaskV4 env user workflow store)
                  (task_WorkflowName task, task_TaskID task) = Some task
           \<and> task_Stages task \<noteq> []
           \<and> (\<forall>s \<in> set (task_Stages task). stage_Jobs s \<noteq> [])))
   \<and> ((\<forall>stage \<in> set (wf_Stages w). \<forall>job \<in> set (ws_Jobs stage). Skipped job) \<longrightarrow>
        stagesLoop env tid [0..<length (wf_Stages w)] (w, []) = Inr (w, []))
   \<and> (\<forall>originTaskArgs nextTaskID workflow1 workflow2 workflow3.
        LintWorkflowV4 env workflow = None
        \<and> IToi_WorkflowV4 env workflow = Inr originTaskArgs
        \<and> GetNextSeq env (WorkflowTaskV4Fmt env (wf_Name workflow)) = Inr nextTaskID
        \<and> RemoveFixedValueMarks env workflow = Inr workflow1
        \<and> RenderGlobalVariables env workflow1 nextTaskID user = Inr workflow2
        \<and> stagesLoop env nextTaskID [0..<length (wf_Stages workflow2)] (workflow2, [])
            = Inr (workflow3, []) \<longrightarrow>
        CreateWorkflowTaskV4 env user workflow store =
          ((\<lparr> resp_ProjectName = wf_Project workflow, resp_WorkflowName = wf_Name workflow,
              resp_TaskID = nextTaskID \<rparr>,
            Some (AddDesc ErrCreateTask
                   (''no stage found in workflow task: '' @ wf_Name workflow2 @ '',taskID: ''
                    @ fmt_d nextTaskID))), store))"
proof (intro conjI allI impI)
  show "jobsLoop env tid i js (w, acc) =
     jobsLoop env tid i (filter (\<lambda>j. \<not> Skipped (jobAt w i j)) js) (w, acc)"
    by (rule jobsLoop_skip)
next
  assume "\<forall>job \<in> set (ws_Jobs (wf_Stages w ! i)). Skipped job"
  then show "stagesLoop env tid (i # rest) (w, stages) = stagesLoop env tid rest (w, stages)"
    by (rule stagesLoop_skip_stage)
next
  fix w' stages'
  assume "stagesLoop env tid rest (w, []) = Inr (w', stages')"
  from stagesLoop_nonempty[OF this] show "\<forall>s \<in> set stages'. stage_Jobs s \<noteq> []" by simp
next
  show "workflowTaskLint t = None \<longleftrightarrow>
        task_Stages t \<noteq> [] \<and> (\<forall>s \<in> set (task_Stages t). stage_Jobs s \<noteq> [])"
    by (rule workflowTaskLint_None)
next
  fix e
  assume "workflowTaskLint t = Some e"
  then show "\<exists>d. e = AddDesc ErrCreateTask d" by (rule workflowTaskLint_err)
next
  assume "snd (fst (CreateWorkflowTaskV4 env user workflow store)) = None"
  then show "\<exists>task. snd (CreateWorkflowTaskV4 env user workflow store)
                  (task_WorkflowName task, task_TaskID task) = Some task
           \<and> task_Stages task \<noteq> []
           \<and> (\<forall>s \<in> set (task_Stages task). stage_Jobs s \<noteq> [])"
    by (auto simp add: workflowTaskLint_None dest!: CreateWorkflowTaskV4_success)
next
  assume "\<forall>stage \<in> set (wf_Stages w). \<forall>job \<in> set (ws_Jobs stage). Skipped job"
  then show "stagesLoop env tid [0..<length (wf_Stages w)] (w, []) = Inr (w, [])"
    using stagesLoop_all_skipped[OF all_skipped_indices, of w env tid "[]"] by blast
next
  fix originTaskArgs nextTaskID workflow1 workflow2 workflow3
  assume h: "LintWorkflowV4 env workflow = None
        \<and> IToi_WorkflowV4 env workflow = Inr originTaskArgs
        \<and> GetNextSeq env (WorkflowTaskV4Fmt env (wf_Name workflow)) = Inr nextTaskID
        \<and> RemoveFixedValueMarks env workflow = Inr workflow1
        \<and> RenderGlobalVariables env workflow1 nextTaskID user = Inr workflow2
        \<and> stagesLoop env nextTaskID [0..<length (wf_Stages workflow2)] (workflow2, [])
            = Inr (workflow3, [])"
  then show "CreateWorkflowTaskV4 env user workflow store =
          ((\<lparr> resp_ProjectName = wf_Project workflow, resp_WorkflowName = wf_Name workflow,
              resp_TaskID = nextTaskID \<rparr>,
            Some (AddDesc ErrCreateTask
                   (''no stage found in workflow task: '' @ wf_Name workflow2 @ '',taskID: ''
                    @ fmt_d nextTaskID))), store)"
    by (simp add: CreateWorkflowTaskV4_def workflowTaskLint_def)
qed

theorem materialization_drops_skipped_and_lints_witness:
  "jobsLoop sampleTaskEnv 7 0 [0, 1] (sampleWorkflow, []) = jobsLoop sampleTaskEnv 7 0 [0] (sampleWorkflow, [])
   \<and> stagesLoop sampleTaskEnv 7 [1] (sampleWorkflow, []) = Inr (sampleWorkflow, [])
   \<and> map stage_Name (snd (projr (stagesLoop sampleTaskEnv 7 [0, 1] (sampleWorkflow, [])))) = [''build'']
   \<and> [] \<notin> set (map stage_Jobs (snd (projr (stagesLoop sampleTaskEnv 7 [0, 1] (sampleWorkflow, [])))))
   \<and> workflowTaskLint emptyTask = Some (AddDesc ErrCreateTask ''no stage found in workflow task: wf,taskID: 7'')
   \<and> (\<exists>task. snd (CreateWorkflowTaskV4 sampleTaskEnv ''alice'' sampleWorkflow Map.empty)
                  (task_WorkflowName task, task_TaskID task) = Some task
          \<and> task_Stages task \<noteq> []
          \<and> [] \<notin> set (map stage_Jobs (task_Stages task)))
   \<and> stagesLoop sampleTaskEnv 7 [0..<length (wf_Stages (allSkipped sampleWorkflow))]
         (allSkipped sampleWorkflow, []) = Inr (allSkipped sampleWorkflow, [])
   \<and> CreateWorkflowTaskV4 noJobsEnv ''alice'' sampleWorkflow Map.empty =
       ((\<lparr> resp_ProjectName = ''demo'', resp_WorkflowName = ''wf'', resp_TaskID = 7 \<rparr>,
         Some (AddDesc ErrCreateTask ''no stage found in workflow task: wf,taskID: 7'')), Map.empty)"
proof -
  have f: "filter (\<lambda>j. \<not> Skipped (jobAt sampleWorkflow 0 j)) [0, 1] = [0]" by code_simp
  have 1: "jobsLoop sampleTaskEnv 7 0 [0, 1] (sampleWorkflow, []) = jobsLoop sampleTaskEnv 7 0 [0] (sampleWorkflow, [])"
    using materialization_drops_skipped_and_lints [where env = sampleTaskEnv and tid = 7 and i = 0 and js = "[0, 1]"
        and w = sampleWorkflow and acc = "[]", THEN conjunct1]
    by (simp only: f)
  have a: "\<forall>job \<in> set (ws_Jobs (wf_Stages sampleWorkflow ! 1)). Skipped job" by code_simp
  have 2: "stagesLoop sampleTaskEnv 7 [1] (sampleWorkflow, []) = Inr (sampleWorkflow, [])"
    using materialization_drops_skipped_and_lints [where env = sampleTaskEnv and tid = 7 and i = 1 and rest = "[]"
        and w = sampleWorkflow and stages = "[]", THEN conjunct2, THEN conjunct1, THEN mp, OF a]
    by simp
  have b: "\<not> isl (stagesLoop sampleTaskEnv 7 [0, 1] (sampleWorkflow, []))" by code_simp
  then have b': "stagesLoop sampleTaskEnv 7 [0, 1] (sampleWorkflow, []) =
      Inr (fst (projr (stagesLoop sampleTaskEnv 7 [0, 1] (sampleWorkflow, []))),
           snd (projr (stagesLoop sampleTaskEnv 7 [0, 1] (sampleWorkflow, []))))"
    by (cases "stagesLoop sampleTaskEnv 7 [0, 1] (sampleWorkflow, [])") simp_all
  have 3: "map stage_Name (snd (projr (stagesLoop sampleTaskEnv 7 [0, 1] (sampleWorkflow, [])))) = [''build'']"
    by code_simp
  have 4: "[] \<notin> set (map stage_Jobs (snd (projr (stagesLoop sampleTaskEnv 7 [0, 1] (sampleWorkflow, [])))))"
    using materialization_drops_skipped_and_lints [where env = sampleTaskEnv and tid = 7 and rest = "[0, 1]" and w = sampleWorkflow,
        THEN conjunct2, THEN conjunct2, THEN conjunct1, THEN spec, THEN spec, THEN mp, OF b']
    by (rule no_empty_jobs)
  have c: "task_Stages emptyTask = []" by (simp add: emptyTask_def)
  have "workflowTaskLint emptyTask \<noteq> None"
    using materialization_drops_skipped_and_lints [where t = emptyTask, THEN conjunct2, THEN conjunct2, THEN conjunct2, THEN conjunct1] c
    by simp
  then obtain e where e: "workflowTaskLint emptyTask = Some e" by auto
  from materialization_drops_skipped_and_lints [where t = emptyTask, THEN conjunct2, THEN conjunct2, THEN conjunct2, THEN conjunct2,
        THEN conjunct1, rule_format, OF e]
  obtain d where d: "e = AddDesc ErrCreateTask d" by auto
  have "workflowTaskLint emptyTask = Some (AddDesc ErrCreateTask ''no stage found in workflow task: wf,taskID: 7'')"
    by (simp add: workflowTaskLint_def emptyTask_def fmt_d_def digit_char_def)
  with e d have 5: "workflowTaskLint emptyTask = Some (AddDesc ErrCreateTask ''no stage found in workflow task: wf,taskID: 7'')"
    by simp
  have h: "snd (fst (CreateWorkflowTaskV4 sampleTaskEnv ''alice'' sampleWorkflow Map.empty)) = None"
    by code_simp
  from materialization_drops_skipped_and_lints [where env = sampleTaskEnv and user = "''alice''" and workflow = sampleWorkflow
        and store = Map.empty, THEN conjunct2, THEN conjunct2, THEN conjunct2, THEN conjunct2,
        THEN conjunct2, THEN conjunct1, THEN mp, OF h]
  obtain task where
    t1: "snd (CreateWorkflowTaskV4 sampleTaskEnv ''alice'' sampleWorkflow Map.empty)
           (task_WorkflowName task, task_TaskID task) = Some task"
    and t2: "task_Stages task \<noteq> []"
    and t3: "\<forall>s \<in> set (task_Stages task). stage_Jobs s \<noteq> []"
    by (elim exE conjE)
  have 6: "\<exists>task. snd (CreateWorkflowTaskV4 sampleTaskEnv ''alice'' sampleWorkflow Map.empty)
                  (task_WorkflowName task, task_TaskID task) = Some task
          \<and> task_Stages task \<noteq> []
          \<and> [] \<notin> set (map stage_Jobs (task_Stages task))"
    using t1 t2 no_empty_jobs [OF t3] by (intro exI [of _ task] conjI)
  have g: "\<forall>stage \<in> set (wf_Stages (allSkipped sampleWorkflow)). \<forall>job \<in> set (ws_Jobs stage). Skipped job"
    by code_simp
  have 7: "stagesLoop sampleTaskEnv 7 [0..<length (wf_Stages (allSkipped sampleWorkflow))]
         (allSkipped sampleWorkflow, []) = Inr (allSkipped sampleWorkflow, [])"
    using materialization_drops_skipped_and_lints [where env = sampleTaskEnv and tid = 7
        and w = "allSkipped sampleWorkflow", THEN conjunct2, THEN conjunct2, THEN conjunct2,
        THEN conjunct2, THEN conjunct2, THEN conjunct2, THEN conjunct1, THEN mp, OF g] .
  have k: "\<not> isl (stagesLoop noJobsEnv 7 [0..<length (wf_Stages (renderedBy ''alice'' sampleWorkflow))]
                    (renderedBy ''alice'' sampleWorkflow, []))
           \<and> snd (projr (stagesLoop noJobsEnv 7 [0..<length (wf_Stages (renderedBy ''alice'' sampleWorkflow))]
                    (renderedBy ''alice'' sampleWorkflow, []))) = []"
    by code_simp
  then have k': "stagesLoop noJobsEnv 7 [0..<length (wf_Stages (renderedBy ''alice'' sampleWorkflow))]
                    (renderedBy ''alice'' sampleWorkflow, [])
      = Inr (fst (projr (stagesLoop noJobsEnv 7 [0..<length (wf_Stages (renderedBy ''alice'' sampleWorkflow))]
                    (renderedBy ''alice'' sampleWorkflow, []))), [])"
    by (cases "stagesLoop noJobsEnv 7 [0..<length (wf_Stages (renderedBy ''alice'' sampleWorkflow))]
                    (renderedBy ''alice'' sampleWorkflow, [])") auto
  have m: "LintWorkflowV4 noJobsEnv sampleWorkflow = None
        \<and> IToi_WorkflowV4 noJobsEnv sampleWorkflow = Inr sampleWorkflow
        \<and> GetNextSeq noJobsEnv (WorkflowTaskV4Fmt noJobsEnv (wf_Name sampleWorkflow)) = Inr 7
        \<and> RemoveFixedValueMarks noJobsEnv sampleWorkflow = Inr (sampleWorkflow\<lparr>wf_KeyVals := []\<rparr>)
        \<and> RenderGlobalVariables noJobsEnv (sampleWorkflow\<lparr>wf_KeyVals := []\<rparr>) 7 ''alice''
            = Inr (renderedBy ''alice'' sampleWorkflow)"
    by (simp add: noJobsEnv_def sampleTaskEnv_def renderedBy_def)
  have n: "wf_Project sampleWorkflow = ''demo''" "wf_Name sampleWorkflow = ''wf''"
    "wf_Name (renderedBy ''alice'' sampleWorkflow) = ''wf''"
    by (simp_all add: sampleWorkflow_def renderedBy_def)
  have 8: "CreateWorkflowTaskV4 noJobsEnv ''alice'' sampleWorkflow Map.empty =
       ((\<lparr> resp_ProjectName = ''demo'', resp_WorkflowName = ''wf'', resp_TaskID = 7 \<rparr>,
         Some (AddDesc ErrCreateTask ''no stage found in workflow task: wf,taskID: 7'')), Map.empty)"
    using materialization_drops_skipped_and_lints [where env = noJobsEnv and user = "''alice''"
        and workflow = sampleWorkflow and store = Map.empty, THEN conjunct2, THEN conjunct2,
        THEN conjunct2, THEN conjunct2, THEN conjunct2, THEN conjunct2, THEN conjunct2, rule_format,
        OF conjI [OF m [THEN conjunct1] conjI [OF m [THEN conjunct2, THEN conjunct1]
          conjI [OF m [THEN conjunct2, THEN conjunct2, THEN conjunct1]
          conjI [OF m [THEN conjunct2, THEN conjunct2, THEN conjunct2, THEN conjunct1]
          conjI [OF m [THEN conjunct2, THEN conjunct2, THEN conjunct2, THEN conjunct2] k']]]]]]
    by (simp add: n fmt_d_def digit_char_def)
  show ?thesis using 1 2 3 4 5 6 7 8 by blast
qed

text \<open>
  C8: a failure of the counter makes \<open>CreateWorkflowTaskV4\<close> return \<open>ErrGetCounter\<close>
  with the counter's message, and a failure inside the stage loop makes it return an
  \<open>ErrCreateTask\<close> with a description; in both cases the store is returned unchanged.
  Inside the loop, a failing repository setup of a build or freestyle job and a failing
  job conversion each end the loop with \<open>ErrCreateTask\<close> carrying the failure's message.
  This holds for a job at any position: when the stages before stage \<open>i\<close> and the jobs
  before job \<open>j\<close> of stage \<open>i\<close> went through and job \<open>j\<close>, not skipped, fails in
  its preparation or in its conversion, \<open>CreateWorkflowTaskV4\<close> returns that
  \<open>ErrCreateTask\<close> and the store unchanged.
\<close>

theorem CreateWorkflowTaskV4_errors_before_persist:
  "(\<forall>msg. LintWorkflowV4 env workflow = None
        \<and> IToi_WorkflowV4 env workflow = Inr originTaskArgs
        \<and> GetNextSeq env (WorkflowTaskV4Fmt env (wf_Name workflow)) = Inl msg \<longrightarrow>
      CreateWorkflowTaskV4 env user workflow store =
        ((\<lparr> resp_ProjectName = wf_Project workflow, resp_WorkflowName = wf_Name workflow,
            resp_TaskID = 0 \<rparr>, Some (AddDesc ErrGetCounter msg)), store))
   \<and> (\<forall>nextTaskID workflow1 workflow2 e.
        LintWorkflowV4 env workflow = None
        \<and> IToi_WorkflowV4 env workflow = Inr originTaskArgs
        \<and> GetNextSeq env (WorkflowTaskV4Fmt env (wf_Name workflow)) = Inr nextTaskID
        \<and> RemoveFixedValueMarks env workflow = Inr workflow1
        \<and> RenderGlobalVariables env workflow1 nextTaskID user = Inr workflow2
        \<and> stagesLoop env nextTaskID [0..<length (wf_Stages workflow2)] (workflow2, []) = Inl e \<longrightarrow>
      (\<exists>d. e = AddDesc ErrCreateTask d)
      \<and> CreateWorkflowTaskV4 env user workflow store =
        ((\<lparr> resp_ProjectName = wf_Project workflow, resp_WorkflowName = wf_Name workflow,
            resp_TaskID = nextTaskID \<rparr>, Some e), store))
   \<and> (\<forall>job msg. JobType job = JobZadigBuild \<and> setZadigBuildRepos env job = Inl msg \<longrightarrow>
        prepareJob env job = Inl (AddDesc ErrCreateTask msg))
   \<and> (\<forall>job msg. JobType job = JobFreestyle \<and> setFreeStyleRepos env job = Inl msg \<longrightarrow>
        prepareJob env job = Inl (AddDesc ErrCreateTask msg))
   \<and> (\<forall>w i j js acc e. \<not> Skipped (jobAt w i j) \<and> prepareJob env (jobAt w i j) = Inl e \<longrightarrow>
        jobsLoop env tid i (j # js) (w, acc) = Inl e)
   \<and> (\<forall>w i j js acc job' msg. \<not> Skipped (jobAt w i j) \<and> prepareJob env (jobAt w i j) = Inr job'
        \<and> ToJobs env job' (setJobAt w i j job') tid = Inl msg \<longrightarrow>
        jobsLoop env tid i (j # js) (w, acc) = Inl (AddDesc ErrCreateTask msg))
   \<and> (\<forall>nextTaskID workflow1 workflow2 i j w1 stages1 w2 jobs1 e.
        LintWorkflowV4 env workflow = None
        \<and> IToi_WorkflowV4 env workflow = Inr originTaskArgs
        \<and> GetNextSeq env (WorkflowTaskV4Fmt env (wf_Name workflow)) = Inr nextTaskID
        \<and> RemoveFixedValueMarks env workflow = Inr workflow1
        \<and> RenderGlobalVariables env workflow1 nextTaskID user = Inr workflow2
        \<and> i < length (wf_Stages workflow2)
        \<and> stagesLoop env nextTaskID [0..<i] (workflow2, []) = Inr (w1, stages1)
        \<and> j < length (ws_Jobs (wf_Stages w1 ! i))
        \<and> jobsLoop env nextTaskID i [0..<j] (w1, []) = Inr (w2, jobs1)
        \<and> \<not> Skipped (jobAt w2 i j)
        \<and> prepareJob env (jobAt w2 i j) = Inl e \<longrightarrow>
      (\<exists>d. e = AddDesc ErrCreateTask d)
      \<and> CreateWorkflowTaskV4 env user workflow store =
        ((\<lparr> resp_ProjectName = wf_Project workflow, resp_WorkflowName = wf_Name workflow,
            resp_TaskID = nextTaskID \<rparr>, Some e), store))
   \<and> (\<forall>nextTaskID workflow1 workflow2 i j w1 stages1 w2 jobs1 job' msg.
        LintWorkflowV4 env workflow = None
        \<and> IToi_WorkflowV4 env workflow = Inr originTaskArgs
        \<and> GetNextSeq env (WorkflowTaskV4Fmt env (wf_Name workflow)) = Inr nextTaskID
        \<and> RemoveFixedValueMarks env workflow = Inr workflow1
        \<and> RenderGlobalVariables env workflow1 nextTaskID user = Inr workflow2
        \<and> i < length (wf_Stages workflow2)
        \<and> stagesLoop env nextTaskID [0..<i] (workflow2, []) = Inr (w1, stages1)
        \<and> j < length (ws_Jobs (wf_Stages w1 ! i))
        \<and> jobsLoop env nextTaskID i [0..<j] (w1, []) = Inr (w2, jobs1)
        \<and> \<not> Skipped (jobAt w2 i j)
        \<and> prepareJob env (jobAt w2 i j) = Inr job'
        \<and> ToJobs env job' (setJobAt w2 i j job') nextTaskID = Inl msg \<longrightarrow>
      CreateWorkflowTaskV4 env user workflow store =
        ((\<lparr> resp_ProjectName = wf_Project workflow, resp_WorkflowName = wf_Name workflow,
            resp_TaskID = nextTaskID \<rparr>, Some (AddDesc ErrCreateTask msg)), store))"
proof (intro conjI allI impI)
  fix msg
  assume "LintWorkflowV4 env workflow = None \<and> IToi_WorkflowV4 env workflow = Inr originTaskArgs
        \<and> GetNextSeq env (WorkflowTaskV4Fmt env (wf_Name workflow)) = Inl msg"
  then show "CreateWorkflowTaskV4 env user workflow store =
        ((\<lparr> resp_ProjectName = wf_Project workflow, resp_WorkflowName = wf_Name workflow,
            resp_TaskID = 0 \<rparr>, Some (AddDesc ErrGetCounter msg)), store)"
    by (simp add: CreateWorkflowTaskV4_def)
next
  fix nextTaskID workflow1 workflow2 e
  assume h: "LintWorkflowV4 env workflow = None
        \<and> IToi_WorkflowV4 env workflow = Inr originTaskArgs
        \<and> GetNextSeq env (WorkflowTaskV4Fmt env (wf_Name workflow)) = Inr nextTaskID
        \<and> RemoveFixedValueMarks env workflow = Inr workflow1
        \<and> RenderGlobalVariables env workflow1 nextTaskID user = Inr workflow2
        \<and> stagesLoop env nextTaskID [0..<length (wf_Stages workflow2)] (workflow2, []) = Inl e"
  then show "\<exists>d. e = AddDesc ErrCreateTask d" using stagesLoop_err by blast
  from h show "CreateWorkflowTaskV4 env user workflow store =
        ((\<lparr> resp_ProjectName = wf_Project workflow, resp_WorkflowName = wf_Name workflow,
            resp_TaskID = nextTaskID \<rparr>, Some e), store)"
    by (simp add: CreateWorkflowTaskV4_def)
next
  fix job msg
  assume "JobType job = JobZadigBuild \<and> setZadigBuildRepos env job = Inl msg"
  then show "prepareJob env job = Inl (AddDesc ErrCreateTask msg)" by (simp add: prepareJob_def)
next
  fix job msg
  assume "JobType job = JobFreestyle \<and> setFreeStyleRepos env job = Inl msg"
  then show "prepareJob env job = Inl (AddDesc ErrCreateTask msg)"
    by (simp add: prepareJob_def JobFreestyle_def JobZadigBuild_def)
next
  fix w i j js acc e
  assume "\<not> Skipped (jobAt w i j) \<and> prepareJob env (jobAt w i j) = Inl e"
  then show "jobsLoop env tid i (j # js) (w, acc) = Inl e" by simp
next
  fix w i j js acc job' msg
  assume "\<not> Skipped (jobAt w i j) \<and> prepareJob env (jobAt w i j) = Inr job'
        \<and> ToJobs env job' (setJobAt w i j job') tid = Inl msg"
  then show "jobsLoop env tid i (j # js) (w, acc) = Inl (AddDesc ErrCreateTask msg)" by simp
next
  fix nextTaskID workflow1 workflow2 i j w1 stages1 w2 jobs1 e
  assume h: "LintWorkflowV4 env workflow = None
        \<and> IToi_WorkflowV4 env workflow = Inr originTaskArgs
        \<and> GetNextSeq env (WorkflowTaskV4Fmt env (wf_Name workflow)) = Inr nextTaskID
        \<and> RemoveFixedValueMarks env workflow = Inr workflow1
        \<and> RenderGlobalVariables env workflow1 nextTaskID user = Inr workflow2
        \<and> i < length (wf_Stages workflow2)
        \<and> stagesLoop env nextTaskID [0..<i] (workflow2, []) = Inr (w1, stages1)
        \<and> j < length (ws_Jobs (wf_Stages w1 ! i))
        \<and> jobsLoop env nextTaskID i [0..<j] (w1, []) = Inr (w2, jobs1)
        \<and> \<not> Skipped (jobAt w2 i j)
        \<and> prepareJob env (jobAt w2 i j) = Inl e"
  then show "\<exists>d. e = AddDesc ErrCreateTask d" using prepareJob_err by blast
  from h have "jobsLoop env nextTaskID i [j] (w2, jobs1) = Inl e" by simp
  with h show "CreateWorkflowTaskV4 env user workflow store =
        ((\<lparr> resp_ProjectName = wf_Project workflow, resp_WorkflowName = wf_Name workflow,
            resp_TaskID = nextTaskID \<rparr>, Some e), store)"
    using CreateWorkflowTaskV4_job_fails by blast
next
  fix nextTaskID workflow1 workflow2 i j w1 stages1 w2 jobs1 job' msg
  assume h: "LintWorkflowV4 env workflow = None
        \<and> IToi_WorkflowV4 env workflow = Inr originTaskArgs
        \<and> GetNextSeq env (WorkflowTaskV4Fmt env (wf_Name workflow)) = Inr nextTaskID
        \<and> RemoveFixedValueMarks env workflow = Inr workflow1
        \<and> RenderGlobalVariables env workflow1 nextTaskID user = Inr workflow2
        \<and> i < length (wf_Stages workflow2)
        \<and> stagesLoop env nextTaskID [0..<i] (workflow2, []) = Inr (w1, stages1)
        \<and> j < length (ws_Jobs (wf_Stages w1 ! i))
        \<and> jobsLoop env nextTaskID i [0..<j] (w1, []) = Inr (w2, jobs1)
        \<and> \<not> Skipped (jobAt w2 i j)
        \<and> prepareJob env (jobAt w2 i j) = Inr job'
        \<and> ToJobs env job' (setJobAt w2 i j job') nextTaskID = Inl msg"
  then have "jobsLoop env nextTaskID i [j] (w2, jobs1) = Inl (AddDesc ErrCreateTask msg)" by simp
  with h show "CreateWorkflowTaskV4 env user workflow store =
        ((\<lparr> resp_ProjectName = wf_Project workflow, resp_WorkflowName = wf_Name workflow,
            resp_TaskID = nextTaskID \<rparr>, Some (AddDesc ErrCreateTask msg)), store)"
    using CreateWorkflowTaskV4_job_fails by blast
qed

theorem CreateWorkflowTaskV4_errors_before_persist_witness:
  "CreateWorkflowTaskV4 failingCounterEnv ''alice'' sampleWorkflow Map.empty =
     ((\<lparr> resp_ProjectName = ''demo'', resp_WorkflowName = ''wf'', resp_TaskID = 0 \<rparr>,
       Some (AddDesc ErrGetCounter ''counter unavailable'')), Map.empty)
   \<and> CreateWorkflowTaskV4 sampleTaskEnv ''alice'' brokenWorkflow Map.empty =
     ((\<lparr> resp_ProjectName = ''demo'', resp_WorkflowName = ''wf'', resp_TaskID = 7 \<rparr>,
       Some (AddDesc ErrCreateTask ''not a freestyle spec'')), Map.empty)
   \<and> prepareJob sampleTaskEnv rawBuildJob = Inl (AddDesc ErrCreateTask ''not a zadig build spec'')
   \<and> prepareJob sampleTaskEnv rawFreestyleJob = Inl (AddDesc ErrCreateTask ''not a freestyle spec'')
   \<and> jobsLoop sampleTaskEnv 7 0 [0] (brokenWorkflow, []) = Inl (AddDesc ErrCreateTask ''not a freestyle spec'')
   \<and> jobsLoop failingToJobsEnv 7 0 [0, 1] (sampleWorkflow, []) = Inl (AddDesc ErrCreateTask ''unknown job type'')
   \<and> CreateWorkflowTaskV4 sampleTaskEnv ''alice'' twoStageWorkflow Map.empty =
     ((\<lparr> resp_ProjectName = ''demo'', resp_WorkflowName = ''wf'', resp_TaskID = 7 \<rparr>,
       Some (AddDesc ErrCreateTask ''not a freestyle spec'')), Map.empty)
   \<and> CreateWorkflowTaskV4 failingPublishEnv ''alice'' twoStageWorkflow Map.empty =
     ((\<lparr> resp_ProjectName = ''demo'', resp_WorkflowName = ''wf'', resp_TaskID = 7 \<rparr>,
       Some (AddDesc ErrCreateTask ''unknown job type'')), Map.empty)"
proof -
  have a: "LintWorkflowV4 failingCounterEnv sampleWorkflow = None
        \<and> IToi_WorkflowV4 failingCounterEnv sampleWorkflow = Inr sampleWorkflow
        \<and> GetNextSeq failingCounterEnv (WorkflowTaskV4Fmt failingCounterEnv (wf_Name sampleWorkflow))
            = Inl ''counter unavailable''"
    by (simp add: failingCounterEnv_def sampleTaskEnv_def)
  have n: "wf_Project sampleWorkflow = ''demo''" "wf_Name sampleWorkflow = ''wf''"
          "wf_Project brokenWorkflow = ''demo''" "wf_Name brokenWorkflow = ''wf''"
    by (simp_all add: sampleWorkflow_def brokenWorkflow_def)
  have 1: "CreateWorkflowTaskV4 failingCounterEnv ''alice'' sampleWorkflow Map.empty =
     ((\<lparr> resp_ProjectName = ''demo'', resp_WorkflowName = ''wf'', resp_TaskID = 0 \<rparr>,
       Some (AddDesc ErrGetCounter ''counter unavailable'')), Map.empty)"
    using CreateWorkflowTaskV4_errors_before_persist [where env = failingCounterEnv and workflow = sampleWorkflow
        and originTaskArgs = sampleWorkflow and user = "''alice''" and store = Map.empty,
        THEN conjunct1, rule_format, OF a]
    by (simp add: n)
  have b: "stagesLoop sampleTaskEnv 7 [0..<length (wf_Stages (renderedBy ''alice'' brokenWorkflow))]
             (renderedBy ''alice'' brokenWorkflow, []) = Inl (AddDesc ErrCreateTask ''not a freestyle spec'')"
    by code_simp
  have 2: "CreateWorkflowTaskV4 sampleTaskEnv ''alice'' brokenWorkflow Map.empty =
     ((\<lparr> resp_ProjectName = ''demo'', resp_WorkflowName = ''wf'', resp_TaskID = 7 \<rparr>,
       Some (AddDesc ErrCreateTask ''not a freestyle spec'')), Map.empty)"
    using CreateWorkflowTaskV4_errors_before_persist [where env = sampleTaskEnv and workflow = brokenWorkflow
        and originTaskArgs = brokenWorkflow and user = "''alice''" and store = Map.empty,
        THEN conjunct2, THEN conjunct1, rule_format,
        of 7 "brokenWorkflow\<lparr>wf_KeyVals := []\<rparr>" "renderedBy ''alice'' brokenWorkflow"
           "AddDesc ErrCreateTask ''not a freestyle spec''"]
      b
    by (simp add: sample_steps n)
  have c: "JobType rawBuildJob = JobZadigBuild \<and> setZadigBuildRepos sampleTaskEnv rawBuildJob = Inl ''not a zadig build spec''"
    by code_simp
  have 3: "prepareJob sampleTaskEnv rawBuildJob = Inl (AddDesc ErrCreateTask ''not a zadig build spec'')"
    using CreateWorkflowTaskV4_errors_before_persist [where env = sampleTaskEnv, THEN conjunct2, THEN conjunct2, THEN conjunct1, rule_format, OF c] .
  have d: "JobType rawFreestyleJob = JobFreestyle \<and> setFreeStyleRepos sampleTaskEnv rawFreestyleJob = Inl ''not a freestyle spec''"
    by code_simp
  have 4: "prepareJob sampleTaskEnv rawFreestyleJob = Inl (AddDesc ErrCreateTask ''not a freestyle spec'')"
    using CreateWorkflowTaskV4_errors_before_persist [where env = sampleTaskEnv, THEN conjunct2, THEN conjunct2, THEN conjunct2, THEN conjunct1, rule_format, OF d] .
  have e: "\<not> Skipped (jobAt brokenWorkflow 0 0)
           \<and> prepareJob sampleTaskEnv (jobAt brokenWorkflow 0 0) = Inl (AddDesc ErrCreateTask ''not a freestyle spec'')"
    by code_simp
  have 5: "jobsLoop sampleTaskEnv 7 0 [0] (brokenWorkflow, []) = Inl (AddDesc ErrCreateTask ''not a freestyle spec'')"
    using CreateWorkflowTaskV4_errors_before_persist [where env = sampleTaskEnv and tid = 7, THEN conjunct2, THEN conjunct2, THEN conjunct2, THEN conjunct2, THEN conjunct1, rule_format, OF e] .
  have f: "\<not> Skipped (jobAt sampleWorkflow 0 0)
           \<and> prepareJob failingToJobsEnv (jobAt sampleWorkflow 0 0) = Inr (projr (prepareJob failingToJobsEnv (jobAt sampleWorkflow 0 0)))
           \<and> ToJobs failingToJobsEnv (projr (prepareJob failingToJobsEnv (jobAt sampleWorkflow 0 0)))
                (setJobAt sampleWorkflow 0 0 (projr (prepareJob failingToJobsEnv (jobAt sampleWorkflow 0 0)))) 7 = Inl ''unknown job type''"
    by code_simp
  have 6: "jobsLoop failingToJobsEnv 7 0 [0, 1] (sampleWorkflow, []) = Inl (AddDesc ErrCreateTask ''unknown job type'')"
    using CreateWorkflowTaskV4_errors_before_persist [where env = failingToJobsEnv and tid = 7, THEN conjunct2, THEN conjunct2, THEN conjunct2, THEN conjunct2, THEN conjunct2, THEN conjunct1, rule_format, OF f] .
  have n2: "wf_Project twoStageWorkflow = ''demo''" "wf_Name twoStageWorkflow = ''wf''"
    by (simp_all add: sampleWorkflow_def twoStageWorkflow_def)
  have g7: "LintWorkflowV4 sampleTaskEnv twoStageWorkflow = None
        \<and> IToi_WorkflowV4 sampleTaskEnv twoStageWorkflow = Inr twoStageWorkflow
        \<and> GetNextSeq sampleTaskEnv (WorkflowTaskV4Fmt sampleTaskEnv (wf_Name twoStageWorkflow)) = Inr 7
        \<and> RemoveFixedValueMarks sampleTaskEnv twoStageWorkflow = Inr (twoStageWorkflow\<lparr>wf_KeyVals := []\<rparr>)
        \<and> RenderGlobalVariables sampleTaskEnv (twoStageWorkflow\<lparr>wf_KeyVals := []\<rparr>) 7 ''alice''
            = Inr (renderedBy ''alice'' twoStageWorkflow)
        \<and> 1 < length (wf_Stages (renderedBy ''alice'' twoStageWorkflow))
        \<and> stagesLoop sampleTaskEnv 7 [0..<1] (renderedBy ''alice'' twoStageWorkflow, [])
            = Inr (fst (afterFirstStage sampleTaskEnv), snd (afterFirstStage sampleTaskEnv))
        \<and> 1 < length (ws_Jobs (wf_Stages (fst (afterFirstStage sampleTaskEnv)) ! 1))
        \<and> jobsLoop sampleTaskEnv 7 1 [0..<1] (fst (afterFirstStage sampleTaskEnv), [])
            = Inr (fst (afterFirstJob sampleTaskEnv), snd (afterFirstJob sampleTaskEnv))
        \<and> \<not> Skipped (jobAt (fst (afterFirstJob sampleTaskEnv)) 1 1)
        \<and> prepareJob sampleTaskEnv (jobAt (fst (afterFirstJob sampleTaskEnv)) 1 1)
            = Inl (AddDesc ErrCreateTask ''not a freestyle spec'')"
    by code_simp
  have 7: "CreateWorkflowTaskV4 sampleTaskEnv ''alice'' twoStageWorkflow Map.empty =
     ((\<lparr> resp_ProjectName = ''demo'', resp_WorkflowName = ''wf'', resp_TaskID = 7 \<rparr>,
       Some (AddDesc ErrCreateTask ''not a freestyle spec'')), Map.empty)"
    using CreateWorkflowTaskV4_errors_before_persist [where env = sampleTaskEnv and workflow = twoStageWorkflow
        and originTaskArgs = twoStageWorkflow and user = "''alice''" and store = Map.empty,
        THEN conjunct2, THEN conjunct2, THEN conjunct2, THEN conjunct2, THEN conjunct2,
        THEN conjunct2, THEN conjunct1, rule_format, OF g7, THEN conjunct2]
    by (simp add: n2)
  have h8: "LintWorkflowV4 failingPublishEnv twoStageWorkflow = None
        \<and> IToi_WorkflowV4 failingPublishEnv twoStageWorkflow = Inr twoStageWorkflow
        \<and> GetNextSeq failingPublishEnv (WorkflowTaskV4Fmt failingPublishEnv (wf_Name twoStageWorkflow)) = Inr 7
        \<and> RemoveFixedValueMarks failingPublishEnv twoStageWorkflow = Inr (twoStageWorkflow\<lparr>wf_KeyVals := []\<rparr>)
        \<and> RenderGlobalVariables failingPublishEnv (twoStageWorkflow\<lparr>wf_KeyVals := []\<rparr>) 7 ''alice''
            = Inr (renderedBy ''alice'' twoStageWorkflow)
        \<and> 1 < length (wf_Stages (renderedBy ''alice'' twoStageWorkflow))
        \<and> stagesLoop failingPublishEnv 7 [0..<1] (renderedBy ''alice'' twoStageWorkflow, [])
            = Inr (fst (afterFirstStage failingPublishEnv), snd (afterFirstStage failingPublishEnv))
        \<and> 0 < length (ws_Jobs (wf_Stages (fst (afterFirstStage failingPublishEnv)) ! 1))
        \<and> jobsLoop failingPublishEnv 7 1 [0..<0] (fst (afterFirstStage failingPublishEnv), [])
            = Inr (fst (afterFirstStage failingPublishEnv), [])
        \<and> \<not> Skipped (jobAt (fst (afterFirstStage failingPublishEnv)) 1 0)
        \<and> prepareJob failingPublishEnv (jobAt (fst (afterFirstStage failingPublishEnv)) 1 0)
            = Inr (projr (prepareJob failingPublishEnv (jobAt (fst (afterFirstStage failingPublishEnv)) 1 0)))
        \<and> ToJobs failingPublishEnv
              (projr (prepareJob failingPublishEnv (jobAt (fst (afterFirstStage failingPublishEnv)) 1 0)))
              (setJobAt (fst (afterFirstStage failingPublishEnv)) 1 0
                 (projr (prepareJob failingPublishEnv (jobAt (fst (afterFirstStage failingPublishEnv)) 1 0))))
              7 = Inl ''unknown job type''"
    by code_simp
  have 8: "CreateWorkflowTaskV4 failingPublishEnv ''alice'' twoStageWorkflow Map.empty =
     ((\<lparr> resp_ProjectName = ''demo'', resp_WorkflowName = ''wf'', resp_TaskID = 7 \<rparr>,
       Some (AddDesc ErrCreateTask ''unknown job type'')), Map.empty)"
    using CreateWorkflowTaskV4_errors_before_persist [where env = failingPublishEnv and workflow = twoStageWorkflow
        and originTaskArgs = twoStageWorkflow and user = "''alice''" and store = Map.empty,
        THEN conjunct2, THEN conjunct2, THEN conjunct2, THEN conjunct2, THEN conjunct2,
        THEN conjunct2, THEN conjunct2, rule_format, OF h8]
    by (simp add: n2)
  show ?thesis using 1 2 3 4 5 6 7 8 by blast
qed

section \<open>Properties of stage approval\<close>

text \<open>
  C9: \<open>ApproveStage\<close> returns \<open>ErrApproveTask\<close> with a description and makes no call to
  the workflow controller when the workflow name is empty, the stage name is empty or the
  task id is 0.  Otherwise it calls the controller once with its arguments and returns
  the controller's error wrapped in \<open>ErrApproveTask\<close>, or no error when there is none.
\<close>

theorem ApproveStage_guard:
  "(workflowName = [] \<or> stageName = [] \<or> taskID = 0 \<longrightarrow>
      ApproveStage controller workflowName stageName userName userID comment taskID approve =
        (Some (AddDesc ErrApproveTask
                (''can not find approved workflow: '' @ workflowName @ '', taskID: ''
                 @ fmt_d taskID @ '',stage: '' @ stageName)), []))
   \<and> (workflowName \<noteq> [] \<and> stageName \<noteq> [] \<and> taskID \<noteq> 0 \<longrightarrow>
      ApproveStage controller workflowName stageName userName userID comment taskID approve =
        (map_option (AddErr ErrApproveTask)
           (controller \<lparr> ac_workflowName = workflowName, ac_stageName = stageName,
                          ac_userName = userName, ac_userID = userID, ac_comment = comment,
                          ac_taskID = taskID, ac_approve = approve \<rparr>),
         [\<lparr> ac_workflowName = workflowName, ac_stageName = stageName,
            ac_userName = userName, ac_userID = userID, ac_comment = comment,
            ac_taskID = taskID, ac_approve = approve \<rparr>]))"
  by (auto simp add: ApproveStage_def Let_def split: option.splits)

theorem ApproveStage_guard_witness:
  "ApproveStage sampleController ''wf'' [] ''alice'' ''u1'' ''ok'' 7 True =
     (Some (AddDesc ErrApproveTask ''can not find approved workflow: wf, taskID: 7,stage: ''), [])
   \<and> ApproveStage sampleController ''wf'' ''build'' ''alice'' ''u1'' ''ok'' 7 False =
     (Some (AddErr ErrApproveTask ''stage already rejected''),
      [\<lparr> ac_workflowName = ''wf'', ac_stageName = ''build'', ac_userName = ''alice'',
         ac_userID = ''u1'', ac_comment = ''ok'', ac_taskID = 7, ac_approve = False \<rparr>])"
  using ApproveStage_guard [of "''wf''" "[]" 7 sampleController "''alice''" "''u1''" "''ok''" True]
        ApproveStage_guard [of "''wf''" "''build''" 7 sampleController "''alice''" "''u1''" "''ok''" False]
  by (simp add: sampleController_def fmt_d_def digit_char_def)

section \<open>Properties of the ingress getter\<close>

text \<open>
  C10: whenever the list call on the cache succeeds, \<open>ListIngressesFormat\<close> returns the
  empty slice and no error, whatever the call put into the unstructured list: the result is
  built from an \<open>IngressList\<close> that the call never receives.
\<close>

theorem ListIngressesFormat_empty:
  "snd (ListResourceInCache namespace
          \<lparr> ul_GroupVersionKind =
               (if lessThan122
                then \<lparr> gvk_Group = ''extensions'', gvk_Kind = ''Ingress'',
                       gvk_Version = ''v1beta1'' \<rparr>
                else \<lparr> gvk_Group = ''networking.k8s.io'', gvk_Kind = ''Ingress'',
                       gvk_Version = ''v1'' \<rparr>),
             ul_Items = [] \<rparr> cl) = None
   \<Longrightarrow> ListIngressesFormat ListResourceInCache namespace cl lessThan122 = ([], None)"
  by (cases lessThan122)
     (auto simp add: ListIngressesFormat_def Let_def split: prod.splits option.splits)

theorem ListIngressesFormat_empty_witness:
  "ul_Items (fst (sampleListResourceInCache ''prod''
       \<lparr> ul_GroupVersionKind = \<lparr> gvk_Group = ''extensions'', gvk_Kind = ''Ingress'',
                                  gvk_Version = ''v1beta1'' \<rparr>,
         ul_Items = [] \<rparr> 1)) = [''ingress/web'', ''ingress/api'']
   \<and> ListIngressesFormat sampleListResourceInCache ''prod'' 1 True = ([], None)"
  using ListIngressesFormat_empty [of sampleListResourceInCache "''prod''" True 1]
  by (simp add: sampleListResourceInCache_def)

end
